theory Spec2Isabelle
  imports Complex_Main
begin

section \<open>The island-world notebook: data model\<close>

text \<open>
  The program is the notebook \<open>evolve_island_world_gmd2106.ipynb\<close>: the set-up cells and one
  \<open>for\<close> loop over global variables, most of them numpy arrays that are fields of a Landlab
  grid. A field has one entry per node of its grid and is mutated in place; its length never
  changes, and the flexure raster is built with the row and column counts of the hex grid.
  A field is therefore a function from node ids to values, and \<open>number_of_nodes\<close> bounds the
  ids that exist: a whole-array statement acts on every id, an assignment through
  \<open>grid.core_nodes\<close> on the core nodes below that bound.

  Numbers are numpy doubles. The definitions are polymorphic in the number type and use
  only the operations the notebook applies. The algebraic properties are proved at type
  \<open>real\<close> (exact arithmetic, the reading of "within floating-point tolerance"); the type
  \<open>fval\<close> below adds the non-finite doubles.
\<close>

datatype node_status =
    BC_NODE_IS_CORE
  | BC_NODE_IS_FIXED_VALUE
  | BC_NODE_IS_FIXED_GRADIENT
  | BC_NODE_IS_LOOPED
  | BC_NODE_IS_CLOSED

type_synonym 'a field = "nat \<Rightarrow> 'a"

text \<open>
  The global variables of the notebook. \<open>internals\<close> stands for everything the Landlab
  components keep to themselves (flow receivers, the extender's horizontal displacement,
  the subsidence rate, ...); \<open>rng\<close> counts the draws taken from numpy's global generator;
  \<open>qs_in\<close> is \<open>ed._qs_in\<close> and \<open>sd_sea_level\<close> is \<open>sd.sea_level\<close>.
\<close>

record ('a, 'c) world =
  number_of_nodes :: nat
  area_of_cell :: "'a field"
  status_at_node :: "node_status field"
  perimeter_nodes :: "bool field"
  z :: "'a field"
  wse :: "'a field"
  drainage_area :: "'a field"
  subaerial :: "bool field"
  submarine :: "bool field"
  cum_depo :: "'a field"
  thickness :: "'a field"
  cum_subs :: "'a field"
  load :: "'a field"
  deflection :: "'a field"
  init_deflection :: "'a field"
  z0 :: "'a field"
  qs_in :: "'a field"
  sd_sea_level :: 'a
  current_sea_level :: 'a
  sea_level :: "'a list"
  rng :: nat
  next_plot :: 'a
  next_save :: 'a
  frame_num :: nat
  save_num :: nat
  internals :: 'c

text \<open>The parameters of the cell "Set parameters" that the notebook's own code reads.\<close>

record 'a params =
  sea_level_delta :: 'a
  crust_datum :: 'a
  unit_wt :: 'a
  dt :: 'a
  plot_interval :: 'a
  save_interval :: 'a

text \<open>
  The Landlab components are library code outside the repository, so they are parameters.
  Each one maps the state it can read (the whole grid) to a state; the model copies back
  only the fields the component owns (see the \<open>_run\<close> definitions below).
  \<open>standard_normal k\<close> is the \<open>k\<close>-th value of \<open>np.random.randn()\<close> under the seed.
\<close>

record ('a, 'c) components =
  ke_run_one_step :: "'a \<Rightarrow> ('a, 'c) world \<Rightarrow> ('a, 'c) world"
  fl_update :: "('a, 'c) world \<Rightarrow> ('a, 'c) world"
  fa_run_one_step :: "('a, 'c) world \<Rightarrow> ('a, 'c) world"
  ed_run_one_step :: "'a \<Rightarrow> ('a, 'c) world \<Rightarrow> ('a, 'c) world"
  sd_run_one_step :: "'a \<Rightarrow> ('a, 'c) world \<Rightarrow> ('a, 'c) world"
  standard_normal :: "nat \<Rightarrow> 'a"

section \<open>The calls into the components\<close>

text \<open>
  Which fields a component writes follows the component contracts of the specification
  (section 4) and the notebook's description of the components; a call changes these
  fields and the component's internals and nothing else.
\<close>

text \<open>
  \<open>ListricKinematicExtender\<close> (with \<open>track_crustal_thickness=True\<close>) owns the elevation,
  the upper-crust thickness and the cumulative subsidence.
\<close>

definition ke_run :: "('a, 'c) components \<Rightarrow> 'a \<Rightarrow> ('a, 'c) world \<Rightarrow> ('a, 'c) world" where
  "ke_run c step w =
     (let r = ke_run_one_step c step w
      in w\<lparr>z := z r, thickness := thickness r, cum_subs := cum_subs r,
            internals := internals r\<rparr>)"

text \<open>\<open>Flexure\<close> reads the load and writes the deflection of the flexure raster.\<close>

definition fl_run :: "('a, 'c) components \<Rightarrow> ('a, 'c) world \<Rightarrow> ('a, 'c) world" where
  "fl_run c w =
     (let r = fl_update c w
      in w\<lparr>deflection := deflection r, internals := internals r\<rparr>)"

text \<open>
  \<open>FlowAccumulator\<close> with \<open>LakeMapperBarnes\<close> fills the separate surface \<open>wse\<close> and
  accumulates drainage area.
\<close>

definition fa_run :: "('a, 'c) components \<Rightarrow> ('a, 'c) world \<Rightarrow> ('a, 'c) world" where
  "fa_run c w =
     (let r = fa_run_one_step c w
      in w\<lparr>wse := wse r, drainage_area := drainage_area r, internals := internals r\<rparr>)"

text \<open>\<open>ErosionDeposition\<close> changes the elevation and leaves its sediment influx.\<close>

definition ed_run :: "('a, 'c) components \<Rightarrow> 'a \<Rightarrow> ('a, 'c) world \<Rightarrow> ('a, 'c) world" where
  "ed_run c step w =
     (let r = ed_run_one_step c step w
      in w\<lparr>z := z r, qs_in := qs_in r, internals := internals r\<rparr>)"

text \<open>\<open>SimpleSubmarineDiffuser\<close> changes the elevation.\<close>

definition sd_run :: "('a, 'c) components \<Rightarrow> 'a \<Rightarrow> ('a, 'c) world \<Rightarrow> ('a, 'c) world" where
  "sd_run c step w =
     (let r = sd_run_one_step c step w
      in w\<lparr>z := z r, internals := internals r\<rparr>)"

section \<open>The notebook's own functions\<close>

text \<open>\<open>grid.core_nodes\<close>: the ids of the nodes whose status is CORE, in increasing order.\<close>

definition core_nodes :: "('a, 'c) world \<Rightarrow> nat list" where
  "core_nodes w =
     filter (\<lambda>n. status_at_node w n = BC_NODE_IS_CORE) [0..<number_of_nodes w]"

text \<open>
  \<open>sea_level_random(current_sea_level, delta)\<close>. The draw comes from the global generator,
  so the function takes the draw sequence and the generator's position and returns the new
  position with the value.
\<close>

definition sea_level_random ::
  "(nat \<Rightarrow> 'a) \<Rightarrow> nat \<Rightarrow> 'a::{plus,times} \<Rightarrow> 'a \<Rightarrow> 'a \<times> nat" where
  "sea_level_random draws k current delta = (current + delta * draws k, Suc k)"

text \<open>
  \<open>display_island\<close> re-runs the flow router and then only reads the grid to draw and save
  an image; the image file is not part of the state.
\<close>

definition display_island :: "('a, 'c) components \<Rightarrow> ('a, 'c) world \<Rightarrow> ('a, 'c) world" where
  "display_island c w = fa_run c w"

text \<open>The loop index \<open>i\<close> is a Python int; \<open>i*dt\<close> converts it to a double.\<close>

primrec float_of_nat :: "nat \<Rightarrow> 'a::{zero,one,plus}" where
  "float_of_nat 0 = 0"
| "float_of_nat (Suc n) = float_of_nat n + 1"

section \<open>The statements of the main loop\<close>

text \<open>
  Each statement of the loop body is a state transformer, named after what it assigns.
  The source line is quoted above each one.
\<close>

text \<open>\<^verbatim>\<open>load[grid.core_nodes] = unit_wt * (thickness[grid.core_nodes] - cum_subs[grid.core_nodes])\<close>\<close>

definition set_load :: "'a::{minus,times} params \<Rightarrow> ('a, 'c) world \<Rightarrow> ('a, 'c) world" where
  "set_load p w =
     w\<lparr>load := (\<lambda>n. if n \<in> set (core_nodes w)
                     then unit_wt p * (thickness w n - cum_subs w n)
                     else load w n)\<rparr>"

text \<open>\<^verbatim>\<open>z[:] = crust_datum + thickness - (cum_subs + (deflection - init_deflection))\<close>\<close>

definition set_elevation :: "'a::{plus,minus} params \<Rightarrow> ('a, 'c) world \<Rightarrow> ('a, 'c) world" where
  "set_elevation p w =
     w\<lparr>z := (\<lambda>n. crust_datum p + thickness w n
                  - (cum_subs w n + (deflection w n - init_deflection w n)))\<rparr>"

text \<open>\<^verbatim>\<open>current_sea_level = sea_level_random(current_sea_level, sea_level_delta)\<close>\<close>

definition adjust_sea_level ::
  "('a::{plus,times}, 'c) components \<Rightarrow> 'a params \<Rightarrow> ('a, 'c) world \<Rightarrow> ('a, 'c) world" where
  "adjust_sea_level c p w =
     (let (v, k) = sea_level_random (standard_normal c) (rng w)
                     (current_sea_level w) (sea_level_delta p)
      in w\<lparr>current_sea_level := v, rng := k\<rparr>)"

text \<open>\<^verbatim>\<open>sea_level.append(current_sea_level)\<close>\<close>

definition append_sea_level :: "('a, 'c) world \<Rightarrow> ('a, 'c) world" where
  "append_sea_level w = w\<lparr>sea_level := sea_level w @ [current_sea_level w]\<rparr>"

text \<open>\<^verbatim>\<open>subaerial[:] = z > current_sea_level\<close>\<close>

definition set_subaerial :: "('a::ord, 'c) world \<Rightarrow> ('a, 'c) world" where
  "set_subaerial w = w\<lparr>subaerial := (\<lambda>n. current_sea_level w < z w n)\<rparr>"

text \<open>\<^verbatim>\<open>submarine = np.invert(subaerial)\<close>\<close>

definition set_submarine :: "('a, 'c) world \<Rightarrow> ('a, 'c) world" where
  "set_submarine w = w\<lparr>submarine := (\<lambda>n. \<not> subaerial w n)\<rparr>"

text \<open>\<^verbatim>\<open>z0 = z.copy()\<close>\<close>

definition copy_z0 :: "('a, 'c) world \<Rightarrow> ('a, 'c) world" where
  "copy_z0 w = w\<lparr>z0 := z w\<rparr>"

text \<open>
  \<^verbatim>\<open>grid.status_at_node[which] = v\<close>, for a boolean array \<open>which\<close> that is a variable of the
  notebook (\<open>submarine\<close>, \<open>subaerial\<close>, \<open>perimeter_nodes\<close>).
\<close>

definition set_status ::
  "(('a, 'c) world \<Rightarrow> bool field) \<Rightarrow> node_status \<Rightarrow> ('a, 'c) world \<Rightarrow> ('a, 'c) world" where
  "set_status which v w =
     w\<lparr>status_at_node := (\<lambda>n. if which w n then v else status_at_node w n)\<rparr>"

text \<open>
  \<^verbatim>\<open>depo_rate = ed._qs_in / grid.area_of_cell[0]\<close> and
  \<^verbatim>\<open>z[submarine] += depo_rate[submarine] * dt\<close>; \<open>depo_rate\<close> is a temporary.
  \<open>area_of_cell\<close> is indexed by cell, and the grid has a cell 0 (it has interior nodes),
  so the read is in range.
\<close>

definition deposit :: "'a::{plus,times,inverse} params \<Rightarrow> ('a, 'c) world \<Rightarrow> ('a, 'c) world" where
  "deposit p w =
     (let depo_rate = (\<lambda>n. qs_in w n / area_of_cell w 0)
      in w\<lparr>z := (\<lambda>n. if submarine w n then z w n + depo_rate n * dt p else z w n)\<rparr>)"

text \<open>\<^verbatim>\<open>sd.sea_level = current_sea_level\<close>\<close>

definition set_sd_sea_level :: "('a, 'c) world \<Rightarrow> ('a, 'c) world" where
  "set_sd_sea_level w = w\<lparr>sd_sea_level := current_sea_level w\<rparr>"

text \<open>\<^verbatim>\<open>cum_depo[grid.core_nodes] += z[grid.core_nodes] - z0[grid.core_nodes]\<close>\<close>

definition add_cum_depo :: "('a::{plus,minus}, 'c) world \<Rightarrow> ('a, 'c) world" where
  "add_cum_depo w =
     w\<lparr>cum_depo := (\<lambda>n. if n \<in> set (core_nodes w)
                         then cum_depo w n + (z w n - z0 w n)
                         else cum_depo w n)\<rparr>"

text \<open>\<^verbatim>\<open>thickness[grid.core_nodes] += z[grid.core_nodes] - z0[grid.core_nodes]\<close>\<close>

definition add_thickness :: "('a::{plus,minus}, 'c) world \<Rightarrow> ('a, 'c) world" where
  "add_thickness w =
     w\<lparr>thickness := (\<lambda>n. if n \<in> set (core_nodes w)
                          then thickness w n + (z w n - z0 w n)
                          else thickness w n)\<rparr>"

text \<open>
  \<^verbatim>\<open>if i*dt >= next_plot:\<close> the frame counter advances, \<open>display_island\<close> runs (and with
  it the flow router), and the next plot time moves on. \<open>plt.clf()\<close> has no effect on the state.
\<close>

definition plot ::
  "('a::{zero,one,plus,times,ord}, 'c) components \<Rightarrow> 'a params \<Rightarrow> nat
    \<Rightarrow> ('a, 'c) world \<Rightarrow> ('a, 'c) world" where
  "plot c p i w =
     (if next_plot w \<le> float_of_nat i * dt p
      then (let w = w\<lparr>frame_num := frame_num w + 1\<rparr>;
                w = display_island c w
            in w\<lparr>next_plot := next_plot w + plot_interval p\<rparr>)
      else w)"

text \<open>
  \<^verbatim>\<open>if i*dt >= next_save:\<close> the save counter advances, \<open>save_grid\<close> writes the grid to a
  file (no effect on the state), and the next save time moves on.
\<close>

definition save ::
  "'a::{zero,one,plus,times,ord} params \<Rightarrow> nat \<Rightarrow> ('a, 'c) world \<Rightarrow> ('a, 'c) world" where
  "save p i w =
     (if next_save w \<le> float_of_nat i * dt p
      then (let w = w\<lparr>save_num := save_num w + 1\<rparr>
            in w\<lparr>next_save := next_save w + save_interval p\<rparr>)
      else w)"

section \<open>The body of the main loop\<close>

text \<open>
  One iteration of \<open>for i in range(1, num_iter + 1)\<close>: the statements in the order of the
  source, under the source's own comments. The two \<open>print\<close> calls have no effect on the state.
\<close>

definition loop_body ::
  "('a::{zero,one,plus,minus,times,inverse,ord}, 'c) components \<Rightarrow> 'a params \<Rightarrow> nat
    \<Rightarrow> ('a, 'c) world \<Rightarrow> ('a, 'c) world" where
  "loop_body c p i w =
    (let
       \<comment> \<open>Tectonic extension and flexure\<close>
       w = ke_run c (dt p) w;
       w = set_load p w;
       w = fl_run c w;
       w = set_elevation p w;
       \<comment> \<open>Adjust sea level\<close>
       w = adjust_sea_level c p w;
       w = append_sea_level w;
       w = set_subaerial w;
       w = set_submarine w;
       \<comment> \<open>Remember previous topo\<close>
       w = copy_z0 w;
       \<comment> \<open>Subaerial erosion\<close>
       w = set_status submarine BC_NODE_IS_FIXED_VALUE w;
       w = set_status subaerial BC_NODE_IS_CORE w;
       w = fa_run c w;
       w = ed_run c (dt p) w;
       \<comment> \<open>Submarine deposition\<close>
       w = deposit p w;
       \<comment> \<open>Submarine diffusion\<close>
       w = set_status submarine BC_NODE_IS_CORE w;
       w = set_status perimeter_nodes BC_NODE_IS_FIXED_VALUE w;
       w = set_sd_sea_level w;
       w = sd_run c (dt p) w;
       \<comment> \<open>Cumulative depo\<close>
       w = add_cum_depo w;
       \<comment> \<open>Update crustal thickness\<close>
       w = add_thickness w;
       \<comment> \<open>Plot\<close>
       w = plot c p i w;
       \<comment> \<open>Save\<close>
       w = save p i w
     in w)"

text \<open>The loop \<open>for i in range(1, num_iter + 1)\<close>.\<close>

definition main_loop ::
  "('a::{zero,one,plus,minus,times,inverse,ord}, 'c) components \<Rightarrow> 'a params \<Rightarrow> nat
    \<Rightarrow> ('a, 'c) world \<Rightarrow> ('a, 'c) world" where
  "main_loop c p num_iter w = fold (loop_body c p) [1..<Suc num_iter] w"

section \<open>The set-up cells\<close>

text \<open>What \<open>load_grid('initial_island.grid')\<close> returns, as far as the notebook reads it.\<close>

record 'a grid_file =
  gf_number_of_nodes :: nat
  gf_area_of_cell :: "'a field"
  gf_status_at_node :: "node_status field"
  gf_elevation :: "'a field"

text \<open>
  Modelled from the spec: the constructors of the Landlab components are not part of the
  repository. The fields they create (\<open>cum_subs\<close>, \<open>deflection\<close>, \<open>drainage_area\<close>, \<open>qs_in\<close>)
  start at zero: the grid state "zero-initializes all derived fields".
\<close>

definition component_zeros :: "'a::zero field" where
  "component_zeros = (\<lambda>n. 0)"

text \<open>
  The state after the cells up to "Instantiate Components": the parameters' derived values,
  \<open>perimeter_nodes = grid.status_at_node != grid.BC_NODE_IS_CORE\<close>, the fields the notebook
  adds with \<open>add_zeros\<close>, and the fields the components create. \<open>submarine\<close>, \<open>z0\<close> and
  \<open>init_deflection\<close> are not assigned yet; every read of them in the notebook follows an
  assignment, so the values chosen here are never used.
\<close>

definition loaded ::
  "'a::zero params \<Rightarrow> 'a grid_file \<Rightarrow> 'c \<Rightarrow> ('a, 'c) world" where
  "loaded p g c0 =
     \<lparr>number_of_nodes = gf_number_of_nodes g,
      area_of_cell = gf_area_of_cell g,
      status_at_node = gf_status_at_node g,
      perimeter_nodes = (\<lambda>n. gf_status_at_node g n \<noteq> BC_NODE_IS_CORE),
      z = gf_elevation g,
      wse = (\<lambda>n. 0),
      drainage_area = component_zeros,
      subaerial = (\<lambda>n. False),
      submarine = (\<lambda>n. False),
      cum_depo = (\<lambda>n. 0),
      thickness = (\<lambda>n. 0),
      cum_subs = component_zeros,
      load = (\<lambda>n. 0),
      deflection = component_zeros,
      init_deflection = (\<lambda>n. 0),
      z0 = (\<lambda>n. 0),
      qs_in = component_zeros,
      sd_sea_level = 0,
      current_sea_level = 0,
      sea_level = [],
      rng = 0,
      next_plot = plot_interval p,
      next_save = save_interval p,
      frame_num = 0,
      save_num = 0,
      internals = c0\<rparr>"

text \<open>
  The cell "Prepare flexure and tectonic subsidence":
  \<^verbatim>\<open>thickness[:] = z - crust_datum\<close>, \<^verbatim>\<open>load[:] = unit_wt * thickness\<close>,
  \<^verbatim>\<open>fl.update()\<close>, \<^verbatim>\<open>init_deflection = deflection.copy()\<close>.
  (\<open>init_thickness\<close> is a copy that nothing reads.)
\<close>

definition prepare_flexure ::
  "('a::{minus,times}, 'c) components \<Rightarrow> 'a params \<Rightarrow> ('a, 'c) world \<Rightarrow> ('a, 'c) world" where
  "prepare_flexure c p w =
     (let w = w\<lparr>thickness := (\<lambda>n. z w n - crust_datum p)\<rparr>;
          w = w\<lparr>load := (\<lambda>n. unit_wt p * thickness w n)\<rparr>;
          w = fl_run c w
      in w\<lparr>init_deflection := deflection w\<rparr>)"

text \<open>
  The whole set-up, ending with the cell \<^verbatim>\<open>display_island(grid, 0.0, 0, ndigits)\<close>, and
  the whole run.
\<close>

definition initial_world ::
  "('a::{zero,minus,times}, 'c) components \<Rightarrow> 'a params \<Rightarrow> 'a grid_file \<Rightarrow> 'c
    \<Rightarrow> ('a, 'c) world" where
  "initial_world c p g c0 = display_island c (prepare_flexure c p (loaded p g c0))"

definition run ::
  "('a::{zero,one,plus,minus,times,inverse,ord}, 'c) components \<Rightarrow> 'a params \<Rightarrow> 'a grid_file
    \<Rightarrow> 'c \<Rightarrow> nat \<Rightarrow> ('a, 'c) world" where
  "run c p g c0 num_iter = main_loop c p num_iter (initial_world c p g c0)"

section \<open>The ten phases of the specification\<close>

text \<open>
  The specification (section 4.1) names ten phases of a step. Each phase is defined here as
  the group of statements it covers, for comparison with the loop body above.
\<close>

definition phase_extension ::
  "('a, 'c) components \<Rightarrow> 'a params \<Rightarrow> ('a, 'c) world \<Rightarrow> ('a, 'c) world" where
  "phase_extension c p w = ke_run c (dt p) w"

definition phase_load_update ::
  "'a::{minus,times} params \<Rightarrow> ('a, 'c) world \<Rightarrow> ('a, 'c) world" where
  "phase_load_update p w = set_load p w"

definition phase_flexure ::
  "('a::{plus,minus}, 'c) components \<Rightarrow> 'a params \<Rightarrow> ('a, 'c) world \<Rightarrow> ('a, 'c) world" where
  "phase_flexure c p w = set_elevation p (fl_run c w)"

definition phase_sea_level_update ::
  "('a::{plus,times}, 'c) components \<Rightarrow> 'a params \<Rightarrow> ('a, 'c) world \<Rightarrow> ('a, 'c) world" where
  "phase_sea_level_update c p w = append_sea_level (adjust_sea_level c p w)"

definition phase_land_sea_partition_1 :: "('a::ord, 'c) world \<Rightarrow> ('a, 'c) world" where
  "phase_land_sea_partition_1 w =
     set_status subaerial BC_NODE_IS_CORE
       (set_status submarine BC_NODE_IS_FIXED_VALUE
         (copy_z0 (set_submarine (set_subaerial w))))"

definition phase_fluvial_erosion ::
  "('a, 'c) components \<Rightarrow> 'a params \<Rightarrow> ('a, 'c) world \<Rightarrow> ('a, 'c) world" where
  "phase_fluvial_erosion c p w = ed_run c (dt p) (fa_run c w)"

definition phase_submarine_deposition ::
  "'a::{plus,times,inverse} params \<Rightarrow> ('a, 'c) world \<Rightarrow> ('a, 'c) world" where
  "phase_submarine_deposition p w = deposit p w"

definition phase_land_sea_partition_2 :: "('a, 'c) world \<Rightarrow> ('a, 'c) world" where
  "phase_land_sea_partition_2 w =
     set_status perimeter_nodes BC_NODE_IS_FIXED_VALUE
       (set_status submarine BC_NODE_IS_CORE w)"

definition phase_submarine_diffusion ::
  "('a, 'c) components \<Rightarrow> 'a params \<Rightarrow> ('a, 'c) world \<Rightarrow> ('a, 'c) world" where
  "phase_submarine_diffusion c p w = sd_run c (dt p) (set_sd_sea_level w)"

definition phase_bookkeeping :: "('a::{plus,minus}, 'c) world \<Rightarrow> ('a, 'c) world" where
  "phase_bookkeeping w = add_thickness (add_cum_depo w)"

definition ten_phases ::
  "('a::{zero,one,plus,minus,times,inverse,ord}, 'c) components \<Rightarrow> 'a params
    \<Rightarrow> ('a, 'c) world \<Rightarrow> ('a, 'c) world" where
  "ten_phases c p =
     phase_bookkeeping \<circ> phase_submarine_diffusion c p \<circ> phase_land_sea_partition_2
     \<circ> phase_submarine_deposition p \<circ> phase_fluvial_erosion c p
     \<circ> phase_land_sea_partition_1 \<circ> phase_sea_level_update c p \<circ> phase_flexure c p
     \<circ> phase_load_update p \<circ> phase_extension c p"

section \<open>The states inside a step\<close>

text \<open>
  The state in which each later phase of an iteration starts, when the iteration starts
  in \<open>w\<close>.
\<close>

definition before_partition_1 ::
  "('a::{plus,minus,times}, 'c) components \<Rightarrow> 'a params \<Rightarrow> ('a, 'c) world \<Rightarrow> ('a, 'c) world" where
  "before_partition_1 c p w =
     phase_sea_level_update c p
       (phase_flexure c p (phase_load_update p (phase_extension c p w)))"

definition before_fluvial_erosion ::
  "('a::{plus,minus,times,ord}, 'c) components \<Rightarrow> 'a params \<Rightarrow> ('a, 'c) world
    \<Rightarrow> ('a, 'c) world" where
  "before_fluvial_erosion c p w = phase_land_sea_partition_1 (before_partition_1 c p w)"

definition before_deposition ::
  "('a::{plus,minus,times,ord}, 'c) components \<Rightarrow> 'a params \<Rightarrow> ('a, 'c) world
    \<Rightarrow> ('a, 'c) world" where
  "before_deposition c p w = phase_fluvial_erosion c p (before_fluvial_erosion c p w)"

definition before_partition_2 ::
  "('a::{plus,minus,times,inverse,ord}, 'c) components \<Rightarrow> 'a params \<Rightarrow> ('a, 'c) world
    \<Rightarrow> ('a, 'c) world" where
  "before_partition_2 c p w = phase_submarine_deposition p (before_deposition c p w)"

definition before_diffusion ::
  "('a::{plus,minus,times,inverse,ord}, 'c) components \<Rightarrow> 'a params \<Rightarrow> ('a, 'c) world
    \<Rightarrow> ('a, 'c) world" where
  "before_diffusion c p w = phase_land_sea_partition_2 (before_partition_2 c p w)"

definition before_bookkeeping ::
  "('a::{plus,minus,times,inverse,ord}, 'c) components \<Rightarrow> 'a params \<Rightarrow> ('a, 'c) world
    \<Rightarrow> ('a, 'c) world" where
  "before_bookkeeping c p w = phase_submarine_diffusion c p (before_diffusion c p w)"

section \<open>Component contracts and invariants\<close>

text \<open>
  Extension rate 0: a call of the extender changes none of the fields it owns.
  Isostasy disabled: a call of the flexure component leaves the deflection as it is.
\<close>

definition extension_rate_zero :: "('a, 'c) components \<Rightarrow> bool" where
  "extension_rate_zero c =
     (\<forall>s w. z (ke_run_one_step c s w) = z w
          \<and> thickness (ke_run_one_step c s w) = thickness w
          \<and> cum_subs (ke_run_one_step c s w) = cum_subs w)"

definition isostasy_disabled :: "('a, 'c) components \<Rightarrow> bool" where
  "isostasy_disabled c = (\<forall>w. deflection (fl_update c w) = deflection w)"

text \<open>
  A diffuser that is idle above sea level: when every node of the grid is above the sea
  level the diffuser was given, a call leaves the elevation of every node as it is.
\<close>

definition diffuser_idle_above_sea_level :: "('a::ord, 'c) components \<Rightarrow> bool" where
  "diffuser_idle_above_sea_level c =
     (\<forall>s w. (\<forall>n<number_of_nodes w. sd_sea_level w < z w n) \<longrightarrow>
            (\<forall>n<number_of_nodes w. z (sd_run_one_step c s w) n = z w n))"

text \<open>The perimeter flag and the status agree at the start of every iteration.\<close>

definition perimeter_is_not_core :: "('a, 'c) world \<Rightarrow> bool" where
  "perimeter_is_not_core w =
     (\<forall>n. perimeter_nodes w n \<longleftrightarrow> status_at_node w n \<noteq> BC_NODE_IS_CORE)"

text \<open>The two facts that a run without tectonics keeps at every core node.\<close>

definition deposit_matches_change ::
  "'a::{plus,minus} params \<Rightarrow> 'a field \<Rightarrow> ('a, 'c) world \<Rightarrow> nat \<Rightarrow> bool" where
  "deposit_matches_change p start w n \<longleftrightarrow>
     cum_depo w n = z w n - start n
   \<and> z w n = crust_datum p + thickness w n
               - (cum_subs w n + (deflection w n - init_deflection w n))"

section \<open>Doubles with their non-finite values\<close>

text \<open>
  A numpy double is a finite number, plus or minus infinity, or NaN. \<open>fval\<close> keeps that
  distinction and the IEEE rules for the special values. The result of an operation on
  finite numbers overflows to the infinity of its sign when its magnitude reaches
  \<open>2^1024 - 2^970\<close>, which is where rounding to nearest leaves the finite doubles (the
  largest one is \<open>2^1024 - 2^971\<close>); below that it is the exact real: rounding and the sign
  of zero are not modelled. numpy raises nothing on these values: an operation returns
  infinity or NaN and the program goes on.
\<close>

datatype fval = Fin real | PInf | NInf | NaN

fun is_finite :: "fval \<Rightarrow> bool" where
  "is_finite (Fin a) = True"
| "is_finite PInf = False"
| "is_finite NInf = False"
| "is_finite NaN = False"

definition overflow_threshold :: real where
  "overflow_threshold = 2 ^ 1024 - 2 ^ 970"

definition overflow :: "real \<Rightarrow> fval" where
  "overflow x =
     (if overflow_threshold \<le> x then PInf
      else if x \<le> - overflow_threshold then NInf
      else Fin x)"

fun fadd :: "fval \<Rightarrow> fval \<Rightarrow> fval" where
  "fadd (Fin a) (Fin b) = overflow (a + b)"
| "fadd NaN y = NaN"
| "fadd x NaN = NaN"
| "fadd PInf NInf = NaN"
| "fadd NInf PInf = NaN"
| "fadd PInf y = PInf"
| "fadd x PInf = PInf"
| "fadd NInf y = NInf"
| "fadd x NInf = NInf"

fun fsub :: "fval \<Rightarrow> fval \<Rightarrow> fval" where
  "fsub (Fin a) (Fin b) = overflow (a - b)"
| "fsub NaN y = NaN"
| "fsub x NaN = NaN"
| "fsub PInf PInf = NaN"
| "fsub NInf NInf = NaN"
| "fsub PInf y = PInf"
| "fsub x PInf = NInf"
| "fsub NInf y = NInf"
| "fsub x NInf = PInf"

fun fmul :: "fval \<Rightarrow> fval \<Rightarrow> fval" where
  "fmul (Fin a) (Fin b) = overflow (a * b)"
| "fmul NaN y = NaN"
| "fmul x NaN = NaN"
| "fmul PInf (Fin b) = (if b = 0 then NaN else if 0 < b then PInf else NInf)"
| "fmul NInf (Fin b) = (if b = 0 then NaN else if 0 < b then NInf else PInf)"
| "fmul (Fin a) PInf = (if a = 0 then NaN else if 0 < a then PInf else NInf)"
| "fmul (Fin a) NInf = (if a = 0 then NaN else if 0 < a then NInf else PInf)"
| "fmul PInf PInf = PInf"
| "fmul PInf NInf = NInf"
| "fmul NInf PInf = NInf"
| "fmul NInf NInf = PInf"

fun fdiv :: "fval \<Rightarrow> fval \<Rightarrow> fval" where
  "fdiv (Fin a) (Fin b) =
     (if b = 0 then (if a = 0 then NaN else if 0 < a then PInf else NInf)
      else overflow (a / b))"
| "fdiv NaN y = NaN"
| "fdiv x NaN = NaN"
| "fdiv (Fin a) PInf = Fin 0"
| "fdiv (Fin a) NInf = Fin 0"
| "fdiv PInf (Fin b) = (if 0 \<le> b then PInf else NInf)"
| "fdiv NInf (Fin b) = (if 0 \<le> b then NInf else PInf)"
| "fdiv x y = NaN"

fun fless :: "fval \<Rightarrow> fval \<Rightarrow> bool" where
  "fless (Fin a) (Fin b) = (a < b)"
| "fless NaN y = False"
| "fless x NaN = False"
| "fless x NInf = False"
| "fless PInf y = False"
| "fless NInf y = True"
| "fless x PInf = True"

instantiation fval :: "{zero,one,plus,minus,times,inverse,ord}"
begin

definition zero_fval :: fval where
  "zero_fval = Fin 0"

definition one_fval :: fval where
  "one_fval = Fin 1"

definition plus_fval :: "fval \<Rightarrow> fval \<Rightarrow> fval" where
  "plus_fval x y = fadd x y"

definition minus_fval :: "fval \<Rightarrow> fval \<Rightarrow> fval" where
  "minus_fval x y = fsub x y"

definition times_fval :: "fval \<Rightarrow> fval \<Rightarrow> fval" where
  "times_fval x y = fmul x y"

definition divide_fval :: "fval \<Rightarrow> fval \<Rightarrow> fval" where
  "divide_fval x y = fdiv x y"

definition inverse_fval :: "fval \<Rightarrow> fval" where
  "inverse_fval x = fdiv (Fin 1) x"

definition less_fval :: "fval \<Rightarrow> fval \<Rightarrow> bool" where
  "less_fval x y = fless x y"

definition less_eq_fval :: "fval \<Rightarrow> fval \<Rightarrow> bool" where
  "less_eq_fval x y = (fless x y \<or> (x = y \<and> x \<noteq> NaN))"

instance ..

end

section \<open>Concrete inputs\<close>

text \<open>
  A hex grid of three rows and four columns: the interior nodes are 5 and 6, the ten
  others form the perimeter. Node 5 is land, node 6 is an interior node of the sea floor,
  and the perimeter lies deep. The parameters keep the sea level still (noise scale 0)
  and ask for a plot after every year; \<open>slow_plot_params\<close> asks for one every two years.
  With \<open>river_components\<close> there is no extension and no flexural response, the flow router
  fills nothing (the water surface is the ground), the core nodes erode by one metre per
  year, a river reaches the sea at the perimeter node 4 (next to node 5) and delivers its
  sediment there, and the diffuser moves nothing.
  \<open>shore_grid\<close> puts node 5 exactly at sea level; \<open>high_grid\<close> puts every node above it.
\<close>

definition demo_grid :: "real grid_file" where
  "demo_grid =
     \<lparr>gf_number_of_nodes = 12,
      gf_area_of_cell = (\<lambda>m. 2),
      gf_status_at_node =
        (\<lambda>n. if n = 5 \<or> n = 6 then BC_NODE_IS_CORE else BC_NODE_IS_FIXED_VALUE),
      gf_elevation = (\<lambda>n. if n = 5 then 5 else if n = 6 then - 3 else - 10)\<rparr>"

definition demo_params :: "real params" where
  "demo_params =
     \<lparr>sea_level_delta = 0, crust_datum = - 100, unit_wt = 2, dt = 1,
      plot_interval = 1, save_interval = 3\<rparr>"


definition river_components :: "(real, unit) components" where
  "river_components =
     \<lparr>ke_run_one_step = (\<lambda>s w. w),
      fl_update = (\<lambda>w. w),
      fa_run_one_step = (\<lambda>w. w\<lparr>wse := z w\<rparr>),
      ed_run_one_step = (\<lambda>s w.
         w\<lparr>z := (\<lambda>n. if status_at_node w n = BC_NODE_IS_CORE then z w n - s else z w n),
           qs_in := (\<lambda>n. if n = 4 then 4 else 0)\<rparr>),
      sd_run_one_step = (\<lambda>s w. w),
      standard_normal = (\<lambda>k. if even k then 1 else - 1)\<rparr>"

definition river_start :: "(real, unit) world" where
  "river_start = initial_world river_components demo_params demo_grid ()"

definition shore_grid :: "real grid_file" where
  "shore_grid =
     \<lparr>gf_number_of_nodes = 12,
      gf_area_of_cell = (\<lambda>m. 2),
      gf_status_at_node =
        (\<lambda>n. if n = 5 \<or> n = 6 then BC_NODE_IS_CORE else BC_NODE_IS_FIXED_VALUE),
      gf_elevation = (\<lambda>n. if n = 5 then 0 else if n = 6 then - 3 else - 10)\<rparr>"

definition shore_start :: "(real, unit) world" where
  "shore_start = initial_world river_components demo_params shore_grid ()"

definition high_grid :: "real grid_file" where
  "high_grid =
     \<lparr>gf_number_of_nodes = 12,
      gf_area_of_cell = (\<lambda>m. 2),
      gf_status_at_node =
        (\<lambda>n. if n = 5 \<or> n = 6 then BC_NODE_IS_CORE else BC_NODE_IS_FIXED_VALUE),
      gf_elevation = (\<lambda>n. if n = 5 then 9 else if n = 6 then 7 else 6)\<rparr>"

definition high_start :: "(real, unit) world" where
  "high_start = initial_world river_components demo_params high_grid ()"

text \<open>
  \<open>creeping_components\<close> is \<open>river_components\<close> with a diffuser that is not idle on land.
  The notebook applies the diffuser \<^emph>\<open>to the entire grid, with an arbitrarily small diffusion
  coefficient applied to subaerial nodes\<close>: here sediment creeps from the interior node 5
  to its lower interior neighbour 6 with the small coefficient \<open>2^-20\<close>, at every depth and
  height, and the perimeter is held fixed.
\<close>

definition creeping_components :: "(real, unit) components" where
  "creeping_components =
     river_components\<lparr>sd_run_one_step := (\<lambda>s w.
        w\<lparr>z := (\<lambda>n. if n = 5 then z w 5 - s * (z w 5 - z w 6) / 2 ^ 20
                     else if n = 6 then z w 6 + s * (z w 5 - z w 6) / 2 ^ 20
                     else z w n)\<rparr>)\<rparr>"

definition creeping_start :: "(real, unit) world" where
  "creeping_start = initial_world creeping_components demo_params high_grid ()"

text \<open>
  The river example in doubles, with an erosion solver that breaks down: it returns NaN
  for the elevation of the land node 5 and an infinite sediment influx at the river
  mouth 4. \<open>failed_flexure_components\<close> has, in addition, a flexure solver that returns NaN
  for every deflection.
\<close>

definition unstable_components :: "(fval, unit) components" where
  "unstable_components =
     \<lparr>ke_run_one_step = (\<lambda>s w. w),
      fl_update = (\<lambda>w. w),
      fa_run_one_step = (\<lambda>w. w\<lparr>wse := z w\<rparr>),
      ed_run_one_step = (\<lambda>s w.
         w\<lparr>z := (\<lambda>n. if n = 5 then NaN else z w n),
           qs_in := (\<lambda>n. if n = 4 then PInf else Fin 0)\<rparr>),
      sd_run_one_step = (\<lambda>s w. w),
      standard_normal = (\<lambda>k. Fin 1)\<rparr>"

definition double_params :: "fval params" where
  "double_params =
     \<lparr>sea_level_delta = Fin 0, crust_datum = Fin (- 100), unit_wt = Fin 2, dt = Fin 1,
      plot_interval = Fin 1, save_interval = Fin 3\<rparr>"

definition double_grid :: "fval grid_file" where
  "double_grid =
     \<lparr>gf_number_of_nodes = 12,
      gf_area_of_cell = (\<lambda>m. Fin 2),
      gf_status_at_node =
        (\<lambda>n. if n = 5 \<or> n = 6 then BC_NODE_IS_CORE else BC_NODE_IS_FIXED_VALUE),
      gf_elevation =
        (\<lambda>n. if n = 5 then Fin 5 else if n = 6 then Fin (- 3) else Fin (- 10))\<rparr>"

definition unstable_start :: "(fval, unit) world" where
  "unstable_start = initial_world unstable_components double_params double_grid ()"

definition failed_flexure_components :: "(fval, unit) components" where
  "failed_flexure_components =
     unstable_components\<lparr>fl_update := (\<lambda>w. w\<lparr>deflection := (\<lambda>n. NaN)\<rparr>)\<rparr>"

section \<open>The loop body in phases\<close>

lemma loop_body_phases:
  "loop_body c p i w = save p i (plot c p i (ten_phases c p w))"
  by (simp add: loop_body_def ten_phases_def phase_extension_def phase_load_update_def
      phase_flexure_def phase_sea_level_update_def phase_land_sea_partition_1_def
      phase_fluvial_erosion_def phase_submarine_deposition_def phase_land_sea_partition_2_def
      phase_submarine_diffusion_def phase_bookkeeping_def)

lemma main_loop_0: "main_loop c p 0 w = w"
  by (simp add: main_loop_def)

lemma main_loop_Suc:
  "main_loop c p (Suc k) w = loop_body c p (Suc k) (main_loop c p k w)"
  by (simp add: main_loop_def)

lemmas before_defs =
  before_partition_1_def before_fluvial_erosion_def before_deposition_def
  before_partition_2_def before_diffusion_def before_bookkeeping_def

lemma ten_phases_before_bookkeeping:
  "ten_phases c p w = phase_bookkeeping (before_bookkeeping c p w)"
  by (simp add: ten_phases_def before_defs)

lemma loop_body_from_fluvial_erosion:
  "loop_body c p i w =
     save p i (plot c p i (phase_bookkeeping (phase_submarine_diffusion c p
       (phase_land_sea_partition_2 (phase_submarine_deposition p
         (phase_fluvial_erosion c p (before_fluvial_erosion c p w)))))))"
  by (simp add: loop_body_phases ten_phases_def before_defs)

lemma loop_body_from_deposition:
  "loop_body c p i w =
     save p i (plot c p i (phase_bookkeeping (phase_submarine_diffusion c p
       (phase_land_sea_partition_2 (phase_submarine_deposition p
         (before_deposition c p w))))))"
  by (simp add: loop_body_phases ten_phases_def before_defs)

section \<open>Frame lemmas: the fields a phase leaves as they are\<close>

lemma ke_run_frame [simp]:
  shows "number_of_nodes (ke_run c s w) = number_of_nodes w"
    and "area_of_cell (ke_run c s w) = area_of_cell w"
    and "status_at_node (ke_run c s w) = status_at_node w"
    and "perimeter_nodes (ke_run c s w) = perimeter_nodes w"
    and "wse (ke_run c s w) = wse w"
    and "drainage_area (ke_run c s w) = drainage_area w"
    and "subaerial (ke_run c s w) = subaerial w"
    and "submarine (ke_run c s w) = submarine w"
    and "cum_depo (ke_run c s w) = cum_depo w"
    and "load (ke_run c s w) = load w"
    and "deflection (ke_run c s w) = deflection w"
    and "init_deflection (ke_run c s w) = init_deflection w"
    and "z0 (ke_run c s w) = z0 w"
    and "qs_in (ke_run c s w) = qs_in w"
    and "sd_sea_level (ke_run c s w) = sd_sea_level w"
    and "current_sea_level (ke_run c s w) = current_sea_level w"
    and "sea_level (ke_run c s w) = sea_level w"
    and "rng (ke_run c s w) = rng w"
    and "next_plot (ke_run c s w) = next_plot w"
    and "next_save (ke_run c s w) = next_save w"
    and "frame_num (ke_run c s w) = frame_num w"
    and "save_num (ke_run c s w) = save_num w"
  by (simp_all add: ke_run_def Let_def)

lemma fl_run_frame [simp]:
  shows "number_of_nodes (fl_run c w) = number_of_nodes w"
    and "area_of_cell (fl_run c w) = area_of_cell w"
    and "status_at_node (fl_run c w) = status_at_node w"
    and "perimeter_nodes (fl_run c w) = perimeter_nodes w"
    and "z (fl_run c w) = z w"
    and "wse (fl_run c w) = wse w"
    and "drainage_area (fl_run c w) = drainage_area w"
    and "subaerial (fl_run c w) = subaerial w"
    and "submarine (fl_run c w) = submarine w"
    and "cum_depo (fl_run c w) = cum_depo w"
    and "thickness (fl_run c w) = thickness w"
    and "cum_subs (fl_run c w) = cum_subs w"
    and "load (fl_run c w) = load w"
    and "init_deflection (fl_run c w) = init_deflection w"
    and "z0 (fl_run c w) = z0 w"
    and "qs_in (fl_run c w) = qs_in w"
    and "sd_sea_level (fl_run c w) = sd_sea_level w"
    and "current_sea_level (fl_run c w) = current_sea_level w"
    and "sea_level (fl_run c w) = sea_level w"
    and "rng (fl_run c w) = rng w"
    and "next_plot (fl_run c w) = next_plot w"
    and "next_save (fl_run c w) = next_save w"
    and "frame_num (fl_run c w) = frame_num w"
    and "save_num (fl_run c w) = save_num w"
  by (simp_all add: fl_run_def Let_def)

lemma fa_run_frame [simp]:
  shows "number_of_nodes (fa_run c w) = number_of_nodes w"
    and "area_of_cell (fa_run c w) = area_of_cell w"
    and "status_at_node (fa_run c w) = status_at_node w"
    and "perimeter_nodes (fa_run c w) = perimeter_nodes w"
    and "z (fa_run c w) = z w"
    and "subaerial (fa_run c w) = subaerial w"
    and "submarine (fa_run c w) = submarine w"
    and "cum_depo (fa_run c w) = cum_depo w"
    and "thickness (fa_run c w) = thickness w"
    and "cum_subs (fa_run c w) = cum_subs w"
    and "load (fa_run c w) = load w"
    and "deflection (fa_run c w) = deflection w"
    and "init_deflection (fa_run c w) = init_deflection w"
    and "z0 (fa_run c w) = z0 w"
    and "qs_in (fa_run c w) = qs_in w"
    and "sd_sea_level (fa_run c w) = sd_sea_level w"
    and "current_sea_level (fa_run c w) = current_sea_level w"
    and "sea_level (fa_run c w) = sea_level w"
    and "rng (fa_run c w) = rng w"
    and "next_plot (fa_run c w) = next_plot w"
    and "next_save (fa_run c w) = next_save w"
    and "frame_num (fa_run c w) = frame_num w"
    and "save_num (fa_run c w) = save_num w"
  by (simp_all add: fa_run_def Let_def)

lemma ed_run_frame [simp]:
  shows "number_of_nodes (ed_run c s w) = number_of_nodes w"
    and "area_of_cell (ed_run c s w) = area_of_cell w"
    and "status_at_node (ed_run c s w) = status_at_node w"
    and "perimeter_nodes (ed_run c s w) = perimeter_nodes w"
    and "wse (ed_run c s w) = wse w"
    and "drainage_area (ed_run c s w) = drainage_area w"
    and "subaerial (ed_run c s w) = subaerial w"
    and "submarine (ed_run c s w) = submarine w"
    and "cum_depo (ed_run c s w) = cum_depo w"
    and "thickness (ed_run c s w) = thickness w"
    and "cum_subs (ed_run c s w) = cum_subs w"
    and "load (ed_run c s w) = load w"
    and "deflection (ed_run c s w) = deflection w"
    and "init_deflection (ed_run c s w) = init_deflection w"
    and "z0 (ed_run c s w) = z0 w"
    and "sd_sea_level (ed_run c s w) = sd_sea_level w"
    and "current_sea_level (ed_run c s w) = current_sea_level w"
    and "sea_level (ed_run c s w) = sea_level w"
    and "rng (ed_run c s w) = rng w"
    and "next_plot (ed_run c s w) = next_plot w"
    and "next_save (ed_run c s w) = next_save w"
    and "frame_num (ed_run c s w) = frame_num w"
    and "save_num (ed_run c s w) = save_num w"
  by (simp_all add: ed_run_def Let_def)

lemma sd_run_frame [simp]:
  shows "number_of_nodes (sd_run c s w) = number_of_nodes w"
    and "area_of_cell (sd_run c s w) = area_of_cell w"
    and "status_at_node (sd_run c s w) = status_at_node w"
    and "perimeter_nodes (sd_run c s w) = perimeter_nodes w"
    and "wse (sd_run c s w) = wse w"
    and "drainage_area (sd_run c s w) = drainage_area w"
    and "subaerial (sd_run c s w) = subaerial w"
    and "submarine (sd_run c s w) = submarine w"
    and "cum_depo (sd_run c s w) = cum_depo w"
    and "thickness (sd_run c s w) = thickness w"
    and "cum_subs (sd_run c s w) = cum_subs w"
    and "load (sd_run c s w) = load w"
    and "deflection (sd_run c s w) = deflection w"
    and "init_deflection (sd_run c s w) = init_deflection w"
    and "z0 (sd_run c s w) = z0 w"
    and "qs_in (sd_run c s w) = qs_in w"
    and "sd_sea_level (sd_run c s w) = sd_sea_level w"
    and "current_sea_level (sd_run c s w) = current_sea_level w"
    and "sea_level (sd_run c s w) = sea_level w"
    and "rng (sd_run c s w) = rng w"
    and "next_plot (sd_run c s w) = next_plot w"
    and "next_save (sd_run c s w) = next_save w"
    and "frame_num (sd_run c s w) = frame_num w"
    and "save_num (sd_run c s w) = save_num w"
  by (simp_all add: sd_run_def Let_def)

lemma phase_extension_frame [simp]:
  shows "number_of_nodes (phase_extension c p w) = number_of_nodes w"
    and "area_of_cell (phase_extension c p w) = area_of_cell w"
    and "status_at_node (phase_extension c p w) = status_at_node w"
    and "perimeter_nodes (phase_extension c p w) = perimeter_nodes w"
    and "wse (phase_extension c p w) = wse w"
    and "drainage_area (phase_extension c p w) = drainage_area w"
    and "subaerial (phase_extension c p w) = subaerial w"
    and "submarine (phase_extension c p w) = submarine w"
    and "cum_depo (phase_extension c p w) = cum_depo w"
    and "load (phase_extension c p w) = load w"
    and "deflection (phase_extension c p w) = deflection w"
    and "init_deflection (phase_extension c p w) = init_deflection w"
    and "z0 (phase_extension c p w) = z0 w"
    and "qs_in (phase_extension c p w) = qs_in w"
    and "sd_sea_level (phase_extension c p w) = sd_sea_level w"
    and "current_sea_level (phase_extension c p w) = current_sea_level w"
    and "sea_level (phase_extension c p w) = sea_level w"
    and "rng (phase_extension c p w) = rng w"
    and "next_plot (phase_extension c p w) = next_plot w"
    and "next_save (phase_extension c p w) = next_save w"
    and "frame_num (phase_extension c p w) = frame_num w"
    and "save_num (phase_extension c p w) = save_num w"
  by (simp_all add: phase_extension_def)

lemma phase_load_update_frame [simp]:
  shows "number_of_nodes (phase_load_update p w) = number_of_nodes w"
    and "area_of_cell (phase_load_update p w) = area_of_cell w"
    and "status_at_node (phase_load_update p w) = status_at_node w"
    and "perimeter_nodes (phase_load_update p w) = perimeter_nodes w"
    and "z (phase_load_update p w) = z w"
    and "wse (phase_load_update p w) = wse w"
    and "drainage_area (phase_load_update p w) = drainage_area w"
    and "subaerial (phase_load_update p w) = subaerial w"
    and "submarine (phase_load_update p w) = submarine w"
    and "cum_depo (phase_load_update p w) = cum_depo w"
    and "thickness (phase_load_update p w) = thickness w"
    and "cum_subs (phase_load_update p w) = cum_subs w"
    and "deflection (phase_load_update p w) = deflection w"
    and "init_deflection (phase_load_update p w) = init_deflection w"
    and "z0 (phase_load_update p w) = z0 w"
    and "qs_in (phase_load_update p w) = qs_in w"
    and "sd_sea_level (phase_load_update p w) = sd_sea_level w"
    and "current_sea_level (phase_load_update p w) = current_sea_level w"
    and "sea_level (phase_load_update p w) = sea_level w"
    and "rng (phase_load_update p w) = rng w"
    and "next_plot (phase_load_update p w) = next_plot w"
    and "next_save (phase_load_update p w) = next_save w"
    and "frame_num (phase_load_update p w) = frame_num w"
    and "save_num (phase_load_update p w) = save_num w"
    and "internals (phase_load_update p w) = internals w"
  by (simp_all add: phase_load_update_def set_load_def)

lemma phase_flexure_frame [simp]:
  shows "number_of_nodes (phase_flexure c p w) = number_of_nodes w"
    and "area_of_cell (phase_flexure c p w) = area_of_cell w"
    and "status_at_node (phase_flexure c p w) = status_at_node w"
    and "perimeter_nodes (phase_flexure c p w) = perimeter_nodes w"
    and "wse (phase_flexure c p w) = wse w"
    and "drainage_area (phase_flexure c p w) = drainage_area w"
    and "subaerial (phase_flexure c p w) = subaerial w"
    and "submarine (phase_flexure c p w) = submarine w"
    and "cum_depo (phase_flexure c p w) = cum_depo w"
    and "thickness (phase_flexure c p w) = thickness w"
    and "cum_subs (phase_flexure c p w) = cum_subs w"
    and "load (phase_flexure c p w) = load w"
    and "init_deflection (phase_flexure c p w) = init_deflection w"
    and "z0 (phase_flexure c p w) = z0 w"
    and "qs_in (phase_flexure c p w) = qs_in w"
    and "sd_sea_level (phase_flexure c p w) = sd_sea_level w"
    and "current_sea_level (phase_flexure c p w) = current_sea_level w"
    and "sea_level (phase_flexure c p w) = sea_level w"
    and "rng (phase_flexure c p w) = rng w"
    and "next_plot (phase_flexure c p w) = next_plot w"
    and "next_save (phase_flexure c p w) = next_save w"
    and "frame_num (phase_flexure c p w) = frame_num w"
    and "save_num (phase_flexure c p w) = save_num w"
  by (simp_all add: phase_flexure_def set_elevation_def)

lemma phase_sea_level_update_frame [simp]:
  shows "number_of_nodes (phase_sea_level_update c p w) = number_of_nodes w"
    and "area_of_cell (phase_sea_level_update c p w) = area_of_cell w"
    and "status_at_node (phase_sea_level_update c p w) = status_at_node w"
    and "perimeter_nodes (phase_sea_level_update c p w) = perimeter_nodes w"
    and "z (phase_sea_level_update c p w) = z w"
    and "wse (phase_sea_level_update c p w) = wse w"
    and "drainage_area (phase_sea_level_update c p w) = drainage_area w"
    and "subaerial (phase_sea_level_update c p w) = subaerial w"
    and "submarine (phase_sea_level_update c p w) = submarine w"
    and "cum_depo (phase_sea_level_update c p w) = cum_depo w"
    and "thickness (phase_sea_level_update c p w) = thickness w"
    and "cum_subs (phase_sea_level_update c p w) = cum_subs w"
    and "load (phase_sea_level_update c p w) = load w"
    and "deflection (phase_sea_level_update c p w) = deflection w"
    and "init_deflection (phase_sea_level_update c p w) = init_deflection w"
    and "z0 (phase_sea_level_update c p w) = z0 w"
    and "qs_in (phase_sea_level_update c p w) = qs_in w"
    and "sd_sea_level (phase_sea_level_update c p w) = sd_sea_level w"
    and "next_plot (phase_sea_level_update c p w) = next_plot w"
    and "next_save (phase_sea_level_update c p w) = next_save w"
    and "frame_num (phase_sea_level_update c p w) = frame_num w"
    and "save_num (phase_sea_level_update c p w) = save_num w"
    and "internals (phase_sea_level_update c p w) = internals w"
  by (simp_all add: phase_sea_level_update_def append_sea_level_def adjust_sea_level_def sea_level_random_def)

lemma phase_land_sea_partition_1_frame [simp]:
  shows "number_of_nodes (phase_land_sea_partition_1 w) = number_of_nodes w"
    and "area_of_cell (phase_land_sea_partition_1 w) = area_of_cell w"
    and "perimeter_nodes (phase_land_sea_partition_1 w) = perimeter_nodes w"
    and "z (phase_land_sea_partition_1 w) = z w"
    and "wse (phase_land_sea_partition_1 w) = wse w"
    and "drainage_area (phase_land_sea_partition_1 w) = drainage_area w"
    and "cum_depo (phase_land_sea_partition_1 w) = cum_depo w"
    and "thickness (phase_land_sea_partition_1 w) = thickness w"
    and "cum_subs (phase_land_sea_partition_1 w) = cum_subs w"
    and "load (phase_land_sea_partition_1 w) = load w"
    and "deflection (phase_land_sea_partition_1 w) = deflection w"
    and "init_deflection (phase_land_sea_partition_1 w) = init_deflection w"
    and "qs_in (phase_land_sea_partition_1 w) = qs_in w"
    and "sd_sea_level (phase_land_sea_partition_1 w) = sd_sea_level w"
    and "current_sea_level (phase_land_sea_partition_1 w) = current_sea_level w"
    and "sea_level (phase_land_sea_partition_1 w) = sea_level w"
    and "rng (phase_land_sea_partition_1 w) = rng w"
    and "next_plot (phase_land_sea_partition_1 w) = next_plot w"
    and "next_save (phase_land_sea_partition_1 w) = next_save w"
    and "frame_num (phase_land_sea_partition_1 w) = frame_num w"
    and "save_num (phase_land_sea_partition_1 w) = save_num w"
    and "internals (phase_land_sea_partition_1 w) = internals w"
  by (simp_all add: phase_land_sea_partition_1_def set_status_def copy_z0_def set_submarine_def set_subaerial_def)

lemma phase_fluvial_erosion_frame [simp]:
  shows "number_of_nodes (phase_fluvial_erosion c p w) = number_of_nodes w"
    and "area_of_cell (phase_fluvial_erosion c p w) = area_of_cell w"
    and "status_at_node (phase_fluvial_erosion c p w) = status_at_node w"
    and "perimeter_nodes (phase_fluvial_erosion c p w) = perimeter_nodes w"
    and "subaerial (phase_fluvial_erosion c p w) = subaerial w"
    and "submarine (phase_fluvial_erosion c p w) = submarine w"
    and "cum_depo (phase_fluvial_erosion c p w) = cum_depo w"
    and "thickness (phase_fluvial_erosion c p w) = thickness w"
    and "cum_subs (phase_fluvial_erosion c p w) = cum_subs w"
    and "load (phase_fluvial_erosion c p w) = load w"
    and "deflection (phase_fluvial_erosion c p w) = deflection w"
    and "init_deflection (phase_fluvial_erosion c p w) = init_deflection w"
    and "z0 (phase_fluvial_erosion c p w) = z0 w"
    and "sd_sea_level (phase_fluvial_erosion c p w) = sd_sea_level w"
    and "current_sea_level (phase_fluvial_erosion c p w) = current_sea_level w"
    and "sea_level (phase_fluvial_erosion c p w) = sea_level w"
    and "rng (phase_fluvial_erosion c p w) = rng w"
    and "next_plot (phase_fluvial_erosion c p w) = next_plot w"
    and "next_save (phase_fluvial_erosion c p w) = next_save w"
    and "frame_num (phase_fluvial_erosion c p w) = frame_num w"
    and "save_num (phase_fluvial_erosion c p w) = save_num w"
  by (simp_all add: phase_fluvial_erosion_def)

lemma phase_submarine_deposition_frame [simp]:
  shows "number_of_nodes (phase_submarine_deposition p w) = number_of_nodes w"
    and "area_of_cell (phase_submarine_deposition p w) = area_of_cell w"
    and "status_at_node (phase_submarine_deposition p w) = status_at_node w"
    and "perimeter_nodes (phase_submarine_deposition p w) = perimeter_nodes w"
    and "wse (phase_submarine_deposition p w) = wse w"
    and "drainage_area (phase_submarine_deposition p w) = drainage_area w"
    and "subaerial (phase_submarine_deposition p w) = subaerial w"
    and "submarine (phase_submarine_deposition p w) = submarine w"
    and "cum_depo (phase_submarine_deposition p w) = cum_depo w"
    and "thickness (phase_submarine_deposition p w) = thickness w"
    and "cum_subs (phase_submarine_deposition p w) = cum_subs w"
    and "load (phase_submarine_deposition p w) = load w"
    and "deflection (phase_submarine_deposition p w) = deflection w"
    and "init_deflection (phase_submarine_deposition p w) = init_deflection w"
    and "z0 (phase_submarine_deposition p w) = z0 w"
    and "qs_in (phase_submarine_deposition p w) = qs_in w"
    and "sd_sea_level (phase_submarine_deposition p w) = sd_sea_level w"
    and "current_sea_level (phase_submarine_deposition p w) = current_sea_level w"
    and "sea_level (phase_submarine_deposition p w) = sea_level w"
    and "rng (phase_submarine_deposition p w) = rng w"
    and "next_plot (phase_submarine_deposition p w) = next_plot w"
    and "next_save (phase_submarine_deposition p w) = next_save w"
    and "frame_num (phase_submarine_deposition p w) = frame_num w"
    and "save_num (phase_submarine_deposition p w) = save_num w"
    and "internals (phase_submarine_deposition p w) = internals w"
  by (simp_all add: phase_submarine_deposition_def deposit_def)

lemma phase_land_sea_partition_2_frame [simp]:
  shows "number_of_nodes (phase_land_sea_partition_2 w) = number_of_nodes w"
    and "area_of_cell (phase_land_sea_partition_2 w) = area_of_cell w"
    and "perimeter_nodes (phase_land_sea_partition_2 w) = perimeter_nodes w"
    and "z (phase_land_sea_partition_2 w) = z w"
    and "wse (phase_land_sea_partition_2 w) = wse w"
    and "drainage_area (phase_land_sea_partition_2 w) = drainage_area w"
    and "subaerial (phase_land_sea_partition_2 w) = subaerial w"
    and "submarine (phase_land_sea_partition_2 w) = submarine w"
    and "cum_depo (phase_land_sea_partition_2 w) = cum_depo w"
    and "thickness (phase_land_sea_partition_2 w) = thickness w"
    and "cum_subs (phase_land_sea_partition_2 w) = cum_subs w"
    and "load (phase_land_sea_partition_2 w) = load w"
    and "deflection (phase_land_sea_partition_2 w) = deflection w"
    and "init_deflection (phase_land_sea_partition_2 w) = init_deflection w"
    and "z0 (phase_land_sea_partition_2 w) = z0 w"
    and "qs_in (phase_land_sea_partition_2 w) = qs_in w"
    and "sd_sea_level (phase_land_sea_partition_2 w) = sd_sea_level w"
    and "current_sea_level (phase_land_sea_partition_2 w) = current_sea_level w"
    and "sea_level (phase_land_sea_partition_2 w) = sea_level w"
    and "rng (phase_land_sea_partition_2 w) = rng w"
    and "next_plot (phase_land_sea_partition_2 w) = next_plot w"
    and "next_save (phase_land_sea_partition_2 w) = next_save w"
    and "frame_num (phase_land_sea_partition_2 w) = frame_num w"
    and "save_num (phase_land_sea_partition_2 w) = save_num w"
    and "internals (phase_land_sea_partition_2 w) = internals w"
  by (simp_all add: phase_land_sea_partition_2_def set_status_def)

lemma phase_submarine_diffusion_frame [simp]:
  shows "number_of_nodes (phase_submarine_diffusion c p w) = number_of_nodes w"
    and "area_of_cell (phase_submarine_diffusion c p w) = area_of_cell w"
    and "status_at_node (phase_submarine_diffusion c p w) = status_at_node w"
    and "perimeter_nodes (phase_submarine_diffusion c p w) = perimeter_nodes w"
    and "wse (phase_submarine_diffusion c p w) = wse w"
    and "drainage_area (phase_submarine_diffusion c p w) = drainage_area w"
    and "subaerial (phase_submarine_diffusion c p w) = subaerial w"
    and "submarine (phase_submarine_diffusion c p w) = submarine w"
    and "cum_depo (phase_submarine_diffusion c p w) = cum_depo w"
    and "thickness (phase_submarine_diffusion c p w) = thickness w"
    and "cum_subs (phase_submarine_diffusion c p w) = cum_subs w"
    and "load (phase_submarine_diffusion c p w) = load w"
    and "deflection (phase_submarine_diffusion c p w) = deflection w"
    and "init_deflection (phase_submarine_diffusion c p w) = init_deflection w"
    and "z0 (phase_submarine_diffusion c p w) = z0 w"
    and "qs_in (phase_submarine_diffusion c p w) = qs_in w"
    and "current_sea_level (phase_submarine_diffusion c p w) = current_sea_level w"
    and "sea_level (phase_submarine_diffusion c p w) = sea_level w"
    and "rng (phase_submarine_diffusion c p w) = rng w"
    and "next_plot (phase_submarine_diffusion c p w) = next_plot w"
    and "next_save (phase_submarine_diffusion c p w) = next_save w"
    and "frame_num (phase_submarine_diffusion c p w) = frame_num w"
    and "save_num (phase_submarine_diffusion c p w) = save_num w"
  by (simp_all add: phase_submarine_diffusion_def set_sd_sea_level_def)

lemma phase_bookkeeping_frame [simp]:
  shows "number_of_nodes (phase_bookkeeping w) = number_of_nodes w"
    and "area_of_cell (phase_bookkeeping w) = area_of_cell w"
    and "status_at_node (phase_bookkeeping w) = status_at_node w"
    and "perimeter_nodes (phase_bookkeeping w) = perimeter_nodes w"
    and "z (phase_bookkeeping w) = z w"
    and "wse (phase_bookkeeping w) = wse w"
    and "drainage_area (phase_bookkeeping w) = drainage_area w"
    and "subaerial (phase_bookkeeping w) = subaerial w"
    and "submarine (phase_bookkeeping w) = submarine w"
    and "cum_subs (phase_bookkeeping w) = cum_subs w"
    and "load (phase_bookkeeping w) = load w"
    and "deflection (phase_bookkeeping w) = deflection w"
    and "init_deflection (phase_bookkeeping w) = init_deflection w"
    and "z0 (phase_bookkeeping w) = z0 w"
    and "qs_in (phase_bookkeeping w) = qs_in w"
    and "sd_sea_level (phase_bookkeeping w) = sd_sea_level w"
    and "current_sea_level (phase_bookkeeping w) = current_sea_level w"
    and "sea_level (phase_bookkeeping w) = sea_level w"
    and "rng (phase_bookkeeping w) = rng w"
    and "next_plot (phase_bookkeeping w) = next_plot w"
    and "next_save (phase_bookkeeping w) = next_save w"
    and "frame_num (phase_bookkeeping w) = frame_num w"
    and "save_num (phase_bookkeeping w) = save_num w"
    and "internals (phase_bookkeeping w) = internals w"
  by (simp_all add: phase_bookkeeping_def add_thickness_def add_cum_depo_def)

lemma plot_frame [simp]:
  shows "number_of_nodes (plot c p i w) = number_of_nodes w"
    and "area_of_cell (plot c p i w) = area_of_cell w"
    and "status_at_node (plot c p i w) = status_at_node w"
    and "perimeter_nodes (plot c p i w) = perimeter_nodes w"
    and "z (plot c p i w) = z w"
    and "subaerial (plot c p i w) = subaerial w"
    and "submarine (plot c p i w) = submarine w"
    and "cum_depo (plot c p i w) = cum_depo w"
    and "thickness (plot c p i w) = thickness w"
    and "cum_subs (plot c p i w) = cum_subs w"
    and "load (plot c p i w) = load w"
    and "deflection (plot c p i w) = deflection w"
    and "init_deflection (plot c p i w) = init_deflection w"
    and "z0 (plot c p i w) = z0 w"
    and "qs_in (plot c p i w) = qs_in w"
    and "sd_sea_level (plot c p i w) = sd_sea_level w"
    and "current_sea_level (plot c p i w) = current_sea_level w"
    and "sea_level (plot c p i w) = sea_level w"
    and "rng (plot c p i w) = rng w"
    and "next_save (plot c p i w) = next_save w"
    and "save_num (plot c p i w) = save_num w"
  by (simp_all add: plot_def display_island_def Let_def)

lemma save_frame [simp]:
  shows "number_of_nodes (save p i w) = number_of_nodes w"
    and "area_of_cell (save p i w) = area_of_cell w"
    and "status_at_node (save p i w) = status_at_node w"
    and "perimeter_nodes (save p i w) = perimeter_nodes w"
    and "z (save p i w) = z w"
    and "wse (save p i w) = wse w"
    and "drainage_area (save p i w) = drainage_area w"
    and "subaerial (save p i w) = subaerial w"
    and "submarine (save p i w) = submarine w"
    and "cum_depo (save p i w) = cum_depo w"
    and "thickness (save p i w) = thickness w"
    and "cum_subs (save p i w) = cum_subs w"
    and "load (save p i w) = load w"
    and "deflection (save p i w) = deflection w"
    and "init_deflection (save p i w) = init_deflection w"
    and "z0 (save p i w) = z0 w"
    and "qs_in (save p i w) = qs_in w"
    and "sd_sea_level (save p i w) = sd_sea_level w"
    and "current_sea_level (save p i w) = current_sea_level w"
    and "sea_level (save p i w) = sea_level w"
    and "rng (save p i w) = rng w"
    and "next_plot (save p i w) = next_plot w"
    and "frame_num (save p i w) = frame_num w"
    and "internals (save p i w) = internals w"
  by (simp_all add: save_def Let_def)

section \<open>Effect lemmas: what each phase assigns\<close>

lemma mem_core_nodes:
  "n \<in> set (core_nodes w) \<longleftrightarrow>
     n < number_of_nodes w \<and> status_at_node w n = BC_NODE_IS_CORE"
  by (auto simp add: core_nodes_def)

lemma load_phase_load_update:
  "load (phase_load_update p w) n =
     (if n \<in> set (core_nodes w) then unit_wt p * (thickness w n - cum_subs w n) else load w n)"
  by (simp add: phase_load_update_def set_load_def)

lemma z_phase_flexure:
  "z (phase_flexure c p w) n =
     crust_datum p + thickness w n
       - (cum_subs w n + (deflection (phase_flexure c p w) n - init_deflection w n))"
  by (simp add: phase_flexure_def set_elevation_def)

lemma phase_sea_level_update_effect:
  shows "current_sea_level (phase_sea_level_update c p w) =
           current_sea_level w + sea_level_delta p * standard_normal c (rng w)"
    and "rng (phase_sea_level_update c p w) = Suc (rng w)"
    and "sea_level (phase_sea_level_update c p w) =
           sea_level w @ [current_sea_level (phase_sea_level_update c p w)]"
  by (simp_all add: phase_sea_level_update_def append_sea_level_def adjust_sea_level_def
      sea_level_random_def)

lemma phase_land_sea_partition_1_effect:
  shows "subaerial (phase_land_sea_partition_1 w) n \<longleftrightarrow> current_sea_level w < z w n"
    and "submarine (phase_land_sea_partition_1 w) n \<longleftrightarrow> \<not> current_sea_level w < z w n"
    and "z0 (phase_land_sea_partition_1 w) = z w"
    and "status_at_node (phase_land_sea_partition_1 w) n =
           (if current_sea_level w < z w n then BC_NODE_IS_CORE else BC_NODE_IS_FIXED_VALUE)"
  by (simp_all add: phase_land_sea_partition_1_def set_status_def copy_z0_def set_submarine_def
      set_subaerial_def)

lemma z_phase_submarine_deposition:
  "z (phase_submarine_deposition p w) n =
     (if submarine w n then z w n + qs_in w n / area_of_cell w 0 * dt p else z w n)"
  by (simp add: phase_submarine_deposition_def deposit_def)

lemma deposition_only_elevation:
  "phase_submarine_deposition p w = w\<lparr>z := z (phase_submarine_deposition p w)\<rparr>"
  by (simp add: phase_submarine_deposition_def deposit_def)

lemma status_phase_land_sea_partition_2:
  "status_at_node (phase_land_sea_partition_2 w) n =
     (if perimeter_nodes w n then BC_NODE_IS_FIXED_VALUE
      else if submarine w n then BC_NODE_IS_CORE else status_at_node w n)"
  by (simp add: phase_land_sea_partition_2_def set_status_def)

lemma sd_sea_level_phase_submarine_diffusion:
  "sd_sea_level (phase_submarine_diffusion c p w) = current_sea_level w"
  by (simp add: phase_submarine_diffusion_def set_sd_sea_level_def)

lemma phase_bookkeeping_effect:
  shows "cum_depo (phase_bookkeeping w) n =
           (if n \<in> set (core_nodes w) then cum_depo w n + (z w n - z0 w n) else cum_depo w n)"
    and "thickness (phase_bookkeeping w) n =
           (if n \<in> set (core_nodes w) then thickness w n + (z w n - z0 w n) else thickness w n)"
  by (simp_all add: phase_bookkeeping_def add_thickness_def add_cum_depo_def mem_core_nodes)

section \<open>Constants and node status along a run\<close>

lemma ten_phases_constants [simp]:
  shows "number_of_nodes (ten_phases c p w) = number_of_nodes w"
    and "area_of_cell (ten_phases c p w) = area_of_cell w"
    and "perimeter_nodes (ten_phases c p w) = perimeter_nodes w"
    and "init_deflection (ten_phases c p w) = init_deflection w"
  by (simp_all add: ten_phases_def)

lemma loop_body_constants [simp]:
  shows "number_of_nodes (loop_body c p i w) = number_of_nodes w"
    and "area_of_cell (loop_body c p i w) = area_of_cell w"
    and "perimeter_nodes (loop_body c p i w) = perimeter_nodes w"
    and "init_deflection (loop_body c p i w) = init_deflection w"
  by (simp_all add: loop_body_phases)

lemma main_loop_constants [simp]:
  shows "number_of_nodes (main_loop c p k w) = number_of_nodes w"
    and "area_of_cell (main_loop c p k w) = area_of_cell w"
    and "perimeter_nodes (main_loop c p k w) = perimeter_nodes w"
    and "init_deflection (main_loop c p k w) = init_deflection w"
  by (induction k) (simp_all add: main_loop_0 main_loop_Suc)

lemma before_constants [simp]:
  shows "number_of_nodes (before_partition_1 c p w) = number_of_nodes w"
    and "perimeter_nodes (before_partition_1 c p w) = perimeter_nodes w"
    and "number_of_nodes (before_fluvial_erosion c p w) = number_of_nodes w"
    and "perimeter_nodes (before_fluvial_erosion c p w) = perimeter_nodes w"
    and "number_of_nodes (before_deposition c p w) = number_of_nodes w"
    and "perimeter_nodes (before_deposition c p w) = perimeter_nodes w"
    and "number_of_nodes (before_partition_2 c p w) = number_of_nodes w"
    and "perimeter_nodes (before_partition_2 c p w) = perimeter_nodes w"
    and "number_of_nodes (before_diffusion c p w) = number_of_nodes w"
    and "perimeter_nodes (before_diffusion c p w) = perimeter_nodes w"
  by (simp_all add: before_defs)

lemma status_ten_phases:
  "status_at_node (ten_phases c p w) n =
     (if perimeter_nodes w n then BC_NODE_IS_FIXED_VALUE else BC_NODE_IS_CORE)"
  by (simp add: ten_phases_def status_phase_land_sea_partition_2
      phase_land_sea_partition_1_effect)

lemma status_loop_body:
  "status_at_node (loop_body c p i w) n =
     (if perimeter_nodes w n then BC_NODE_IS_FIXED_VALUE else BC_NODE_IS_CORE)"
  by (simp add: loop_body_phases status_ten_phases)

lemma mem_core_nodes_loop_body:
  "n \<in> set (core_nodes (loop_body c p i w)) \<longleftrightarrow> n < number_of_nodes w \<and> \<not> perimeter_nodes w n"
  by (simp add: mem_core_nodes status_loop_body)

lemma initial_world_fields:
  shows "number_of_nodes (initial_world c p g c0) = gf_number_of_nodes g"
    and "area_of_cell (initial_world c p g c0) = gf_area_of_cell g"
    and "status_at_node (initial_world c p g c0) = gf_status_at_node g"
    and "perimeter_nodes (initial_world c p g c0) n \<longleftrightarrow>
           gf_status_at_node g n \<noteq> BC_NODE_IS_CORE"
    and "z (initial_world c p g c0) = gf_elevation g"
    and "thickness (initial_world c p g c0) n = gf_elevation g n - crust_datum p"
    and "load (initial_world c p g c0) n = unit_wt p * (gf_elevation g n - crust_datum p)"
    and "cum_subs (initial_world c p g c0) n = 0"
    and "cum_depo (initial_world c p g c0) n = 0"
  by (simp_all add: initial_world_def display_island_def prepare_flexure_def loaded_def component_zeros_def Let_def)

lemma initial_world_baseline:
  "init_deflection (initial_world c p g c0) = deflection (initial_world c p g c0)"
  by (simp add: initial_world_def display_island_def prepare_flexure_def Let_def)

lemma initial_world_sea_level:
  shows "sea_level (initial_world c p g c0) = []"
    and "current_sea_level (initial_world c p g c0) = 0"
  by (simp_all add: initial_world_def display_island_def prepare_flexure_def loaded_def component_zeros_def Let_def)

lemma perimeter_is_not_core_initial_world:
  "perimeter_is_not_core (initial_world c p g c0)"
  by (simp add: perimeter_is_not_core_def initial_world_fields)

lemma perimeter_is_not_core_loop_body:
  "perimeter_is_not_core (loop_body c p i w)"
  by (simp add: perimeter_is_not_core_def status_loop_body)

lemma perimeter_is_not_core_main_loop:
  "perimeter_is_not_core w \<Longrightarrow> perimeter_is_not_core (main_loop c p k w)"
  by (cases k) (simp_all add: main_loop_0 main_loop_Suc perimeter_is_not_core_loop_body)

lemma mem_core_nodes_main_loop:
  assumes "perimeter_is_not_core w"
  shows "n \<in> set (core_nodes (main_loop c p k w)) \<longleftrightarrow>
           n < number_of_nodes w \<and> \<not> perimeter_nodes w n"
  using perimeter_is_not_core_main_loop [OF assms, of c p k]
  by (simp add: mem_core_nodes perimeter_is_not_core_def)

section \<open>What an iteration records\<close>

text \<open>
  The masks, the copy \<open>z0\<close> of the elevation, the sea level, the sediment influx and the
  deflection are last written inside the iteration, so its final state shows what the
  phases worked with.
\<close>

lemma loop_body_records:
  shows "subaerial (loop_body c p i w) = subaerial (before_fluvial_erosion c p w)"
    and "submarine (loop_body c p i w) = submarine (before_fluvial_erosion c p w)"
    and "z0 (loop_body c p i w) = z (before_fluvial_erosion c p w)"
    and "current_sea_level (loop_body c p i w) =
           current_sea_level (before_fluvial_erosion c p w)"
    and "qs_in (loop_body c p i w) = qs_in (before_deposition c p w)"
    and "deflection (loop_body c p i w) = deflection (before_partition_1 c p w)"
  by (simp_all add: loop_body_phases ten_phases_def before_defs
      phase_land_sea_partition_1_effect)

lemma before_deposition_records:
  shows "submarine (before_deposition c p w) = submarine (before_fluvial_erosion c p w)"
    and "status_at_node (before_deposition c p w) =
           status_at_node (before_fluvial_erosion c p w)"
    and "area_of_cell (before_deposition c p w) = area_of_cell w"
  by (simp_all add: before_defs)

lemma first_partition_rule:
  shows "status_at_node (before_fluvial_erosion c p w) n = BC_NODE_IS_FIXED_VALUE \<longleftrightarrow>
           \<not> current_sea_level (before_fluvial_erosion c p w)
               < z (before_fluvial_erosion c p w) n"
    and "status_at_node (before_fluvial_erosion c p w) n = BC_NODE_IS_CORE \<longleftrightarrow>
           current_sea_level (before_fluvial_erosion c p w) < z (before_fluvial_erosion c p w) n"
    and "submarine (before_fluvial_erosion c p w) n \<longleftrightarrow>
           status_at_node (before_fluvial_erosion c p w) n = BC_NODE_IS_FIXED_VALUE"
    and "subaerial (before_fluvial_erosion c p w) n \<longleftrightarrow>
           status_at_node (before_fluvial_erosion c p w) n = BC_NODE_IS_CORE"
  by (simp_all add: before_fluvial_erosion_def phase_land_sea_partition_1_effect)

lemma z_before_bookkeeping:
  "z (loop_body c p i w) = z (before_bookkeeping c p w)"
  by (simp add: loop_body_phases ten_phases_before_bookkeeping)

lemma mem_core_nodes_before_bookkeeping:
  "n \<in> set (core_nodes (before_bookkeeping c p w)) \<longleftrightarrow>
     n < number_of_nodes w \<and> \<not> perimeter_nodes w n"
  by (simp add: mem_core_nodes before_bookkeeping_def before_diffusion_def
      before_partition_2_def before_deposition_def before_fluvial_erosion_def
      status_phase_land_sea_partition_2 phase_land_sea_partition_1_effect)

lemma z_handed_to_diffuser:
  "z (loop_body c p i w) =
     z (sd_run_one_step c (dt p) (set_sd_sea_level (before_diffusion c p w)))"
  by (simp add: z_before_bookkeeping before_bookkeeping_def phase_submarine_diffusion_def
      sd_run_def Let_def)

lemma z_set_sd_sea_level: "z (set_sd_sea_level w) = z w"
  by (simp add: set_sd_sea_level_def)

lemma diffusion_only_elevation:
  "phase_submarine_diffusion c p w =
     w\<lparr>z := z (phase_submarine_diffusion c p w),
       sd_sea_level := current_sea_level w,
       internals := internals (phase_submarine_diffusion c p w)\<rparr>"
  by (simp add: phase_submarine_diffusion_def set_sd_sea_level_def sd_run_def Let_def)

section \<open>An iteration with every node above sea level\<close>

lemma land_only_partition:
  assumes "\<forall>m<number_of_nodes w.
             current_sea_level (before_partition_1 c p w) < z (before_partition_1 c p w) m"
    and "m < number_of_nodes w"
  shows "subaerial (loop_body c p i w) m"
    and "\<not> submarine (loop_body c p i w) m"
    and "status_at_node (before_fluvial_erosion c p w) m = BC_NODE_IS_CORE"
    and "status_at_node (before_deposition c p w) m = BC_NODE_IS_CORE"
    and "z (phase_submarine_deposition p (before_deposition c p w)) m =
           z (before_deposition c p w) m"
    and "z (before_diffusion c p w) m = z (before_deposition c p w) m"
proof -
  have above: "current_sea_level (before_partition_1 c p w) < z (before_partition_1 c p w) m"
    using assms by blast
  then show "subaerial (loop_body c p i w) m"
    and "\<not> submarine (loop_body c p i w) m"
    and "status_at_node (before_fluvial_erosion c p w) m = BC_NODE_IS_CORE"
    and "status_at_node (before_deposition c p w) m = BC_NODE_IS_CORE"
    and "z (phase_submarine_deposition p (before_deposition c p w)) m =
           z (before_deposition c p w) m"
    and "z (before_diffusion c p w) m = z (before_deposition c p w) m"
    by (simp_all add: loop_body_records before_diffusion_def before_partition_2_def
        before_deposition_def before_fluvial_erosion_def phase_land_sea_partition_1_effect
        z_phase_submarine_deposition)
qed

lemma land_only_diffusion:
  assumes above: "\<forall>m<number_of_nodes w.
             current_sea_level (before_partition_1 c p w) < z (before_partition_1 c p w) m"
    and still: "\<forall>m<number_of_nodes w.
             current_sea_level (before_partition_1 c p w) < z (before_deposition c p w) m"
    and idle: "diffuser_idle_above_sea_level c"
    and node: "m < number_of_nodes w"
  shows "z (loop_body c p i w) m = z (before_deposition c p w) m"
proof -
  let ?v = "set_sd_sea_level (before_diffusion c p w)"
  have level: "sd_sea_level ?v = current_sea_level (before_partition_1 c p w)"
    by (simp add: set_sd_sea_level_def before_defs)
  have elevation: "z ?v k = z (before_deposition c p w) k" if "k < number_of_nodes w" for k
    using land_only_partition(6) [OF above that] by (simp add: set_sd_sea_level_def)
  have nodes: "number_of_nodes ?v = number_of_nodes w"
    by (simp add: set_sd_sea_level_def)
  have "\<forall>k<number_of_nodes ?v. sd_sea_level ?v < z ?v k"
    using still by (simp add: level elevation nodes)
  with idle have "\<forall>k<number_of_nodes ?v. z (sd_run_one_step c (dt p) ?v) k = z ?v k"
    unfolding diffuser_idle_above_sea_level_def by blast
  with node show ?thesis
    by (simp add: z_handed_to_diffuser nodes elevation)
qed

section \<open>The sea level along a run\<close>

lemma loop_body_sea_level:
  shows "current_sea_level (loop_body c p i w) =
           current_sea_level w + sea_level_delta p * standard_normal c (rng w)"
    and "sea_level (loop_body c p i w) = sea_level w @ [current_sea_level (loop_body c p i w)]"
    and "rng (loop_body c p i w) = Suc (rng w)"
  by (simp_all add: loop_body_phases ten_phases_def phase_sea_level_update_effect)

lemma main_loop_sea_level_length:
  "length (sea_level (main_loop c p k w)) = length (sea_level w) + k"
  by (induction k) (simp_all add: main_loop_0 main_loop_Suc loop_body_sea_level(2))



section \<open>The elevation decomposition and the load\<close>

lemma decomposition_ten_phases:
  fixes c :: "(real, 'c) components"
  assumes "n < number_of_nodes w" and "\<not> perimeter_nodes w n"
  shows "z (ten_phases c p w) n =
           crust_datum p + thickness (ten_phases c p w) n
             - (cum_subs (ten_phases c p w) n
                + (deflection (ten_phases c p w) n - init_deflection (ten_phases c p w) n))"
  using assms
  by (simp add: ten_phases_def phase_bookkeeping_effect mem_core_nodes
      status_phase_land_sea_partition_2 phase_land_sea_partition_1_effect z_phase_flexure)

lemma decomposition_loop_body:
  fixes c :: "(real, 'c) components"
  assumes "n \<in> set (core_nodes (loop_body c p i w))"
  shows "z (loop_body c p i w) n =
           crust_datum p + thickness (loop_body c p i w) n
             - (cum_subs (loop_body c p i w) n
                + (deflection (loop_body c p i w) n - init_deflection (loop_body c p i w) n))"
  using assms decomposition_ten_phases [of n w c p]
  by (simp add: mem_core_nodes_loop_body) (simp add: loop_body_phases)

lemma load_ten_phases:
  "load (ten_phases c p w) n =
     (if n \<in> set (core_nodes w)
      then unit_wt p * (thickness (ke_run c (dt p) w) n - cum_subs (ke_run c (dt p) w) n)
      else load w n)"
  by (simp add: ten_phases_def load_phase_load_update mem_core_nodes)
     (simp add: phase_extension_def)

lemma load_loop_body:
  "load (loop_body c p i w) n =
     (if n \<in> set (core_nodes w)
      then unit_wt p * (thickness (ke_run c (dt p) w) n - cum_subs (ke_run c (dt p) w) n)
      else load w n)"
  by (simp add: loop_body_phases load_ten_phases)

lemma load_main_loop_perimeter:
  assumes "perimeter_is_not_core w" and "\<not> (n < number_of_nodes w \<and> \<not> perimeter_nodes w n)"
  shows "load (main_loop c p k w) n = load w n"
proof (induction k)
  case 0
  show ?case by (simp add: main_loop_0)
next
  case (Suc k)
  have "n \<notin> set (core_nodes (main_loop c p k w))"
    using assms by (simp add: mem_core_nodes_main_loop)
  then show ?case
    using Suc by (simp add: main_loop_Suc load_loop_body)
qed

section \<open>A run without tectonics\<close>

lemma phase_extension_rate_zero:
  assumes "extension_rate_zero c"
  shows "thickness (phase_extension c p w) = thickness w"
    and "cum_subs (phase_extension c p w) = cum_subs w"
  using assms by (simp_all add: extension_rate_zero_def phase_extension_def ke_run_def Let_def)

lemma phase_flexure_isostasy_disabled:
  assumes "isostasy_disabled c"
  shows "deflection (phase_flexure c p w) = deflection w"
  using assms
  by (simp add: isostasy_disabled_def phase_flexure_def fl_run_def set_elevation_def Let_def)

lemma deposit_matches_change_ten_phases:
  fixes c :: "(real, 'c) components"
  assumes "extension_rate_zero c" and "isostasy_disabled c"
    and "n < number_of_nodes w" and "\<not> perimeter_nodes w n"
    and "deposit_matches_change p start w n"
  shows "deposit_matches_change p start (ten_phases c p w) n"
proof -
  have "cum_depo (ten_phases c p w) n = cum_depo w n + (z (ten_phases c p w) n - z w n)"
    using assms(3-5)
    by (simp add: ten_phases_def phase_bookkeeping_effect mem_core_nodes
        status_phase_land_sea_partition_2 phase_land_sea_partition_1_effect z_phase_flexure
        phase_extension_rate_zero [OF assms(1)] phase_flexure_isostasy_disabled [OF assms(2)]
        deposit_matches_change_def)
  then show ?thesis
    using assms(5) decomposition_ten_phases [OF assms(3,4), of c p]
    by (simp add: deposit_matches_change_def)
qed

lemma deposit_matches_change_loop_body:
  fixes c :: "(real, 'c) components"
  assumes "extension_rate_zero c" and "isostasy_disabled c"
    and "n < number_of_nodes w" and "\<not> perimeter_nodes w n"
    and "deposit_matches_change p start w n"
  shows "deposit_matches_change p start (loop_body c p i w) n"
  using deposit_matches_change_ten_phases [OF assms]
  by (simp add: deposit_matches_change_def loop_body_phases)

lemma deposit_matches_change_main_loop:
  fixes c :: "(real, 'c) components"
  assumes "extension_rate_zero c" and "isostasy_disabled c"
    and "n < number_of_nodes w" and "\<not> perimeter_nodes w n"
    and "deposit_matches_change p start w n"
  shows "deposit_matches_change p start (main_loop c p k w) n"
proof (induction k)
  case 0
  show ?case using assms(5) by (simp add: main_loop_0)
next
  case (Suc k)
  show ?case
    unfolding main_loop_Suc
    by (rule deposit_matches_change_loop_body [OF assms(1,2) _ _ Suc]) (simp_all add: assms)
qed

lemma deposit_matches_change_initial_world:
  fixes c :: "(real, 'c) components"
  shows "deposit_matches_change p (z (initial_world c p g c0)) (initial_world c p g c0) n"
  by (simp add: deposit_matches_change_def initial_world_fields initial_world_baseline)

lemma cum_depo_run:
  fixes c :: "(real, 'c) components"
  assumes "extension_rate_zero c" and "isostasy_disabled c"
    and "n \<in> set (core_nodes (run c p g c0 k))"
  shows "cum_depo (run c p g c0 k) n = z (run c p g c0 k) n - z (initial_world c p g c0) n"
proof -
  have "n < number_of_nodes (initial_world c p g c0)
        \<and> \<not> perimeter_nodes (initial_world c p g c0) n"
    using assms(3) unfolding run_def
    by (simp add: mem_core_nodes_main_loop [OF perimeter_is_not_core_initial_world])
  then have "deposit_matches_change p (z (initial_world c p g c0)) (run c p g c0 k) n"
    unfolding run_def
    using deposit_matches_change_main_loop
            [OF assms(1,2) _ _ deposit_matches_change_initial_world]
    by blast
  then show ?thesis by (simp add: deposit_matches_change_def)
qed

section \<open>Non-finite values in a step\<close>

lemma overflow_threshold_large: "1000000 < overflow_threshold"
  by (simp add: overflow_threshold_def)

lemma overflow_small: "\<bar>x\<bar> \<le> 1000000 \<Longrightarrow> overflow x = Fin x"
  using overflow_threshold_large by (auto simp add: overflow_def)

lemma overflow_to_infinity: "fmul (Fin (10 ^ 308)) (Fin 105) = PInf"
  by (simp add: overflow_def overflow_threshold_def)

lemma non_finite_fadd:
  shows "\<not> is_finite a \<Longrightarrow> \<not> is_finite (fadd a b)"
    and "\<not> is_finite b \<Longrightarrow> \<not> is_finite (fadd a b)"
  by (cases a; cases b; simp)+

lemma non_finite_fsub:
  shows "\<not> is_finite a \<Longrightarrow> \<not> is_finite (fsub a b)"
    and "\<not> is_finite b \<Longrightarrow> \<not> is_finite (fsub a b)"
  by (cases a; cases b; simp)+

lemma non_finite_fmul:
  shows "\<not> is_finite a \<Longrightarrow> \<not> is_finite (fmul a b)"
    and "\<not> is_finite b \<Longrightarrow> \<not> is_finite (fmul a b)"
  by (cases a; cases b; simp)+

lemma non_finite_fdiv:
  "\<not> is_finite a \<Longrightarrow> \<not> is_finite (fdiv a b)"
  by (cases a; cases b; simp)

lemma non_finite_deflection_reaches_elevation:
  fixes c :: "(fval, 'c) components"
  assumes "\<not> is_finite (deflection (loop_body c p i w) n)"
  shows "\<not> is_finite (z0 (loop_body c p i w) n)"
proof -
  have "\<not> is_finite
          (deflection (phase_flexure c p (phase_load_update p (phase_extension c p w))) n)"
    using assms by (simp add: loop_body_records before_partition_1_def)
  then show ?thesis
    by (simp add: loop_body_records before_fluvial_erosion_def before_partition_1_def
        z_phase_flexure plus_fval_def minus_fval_def non_finite_fadd non_finite_fsub)
qed

lemma non_finite_flux_reaches_elevation:
  fixes c :: "(fval, 'c) components"
  assumes "submarine (loop_body c p i w) n"
    and "\<not> is_finite (qs_in (loop_body c p i w) n)"
  shows "\<not> is_finite (z (before_diffusion c p w) n)"
proof -
  have sub: "submarine (before_deposition c p w) n"
    using assms(1) by (simp add: loop_body_records before_deposition_records)
  have flux: "\<not> is_finite (qs_in (before_deposition c p w) n)"
    using assms(2) by (simp add: loop_body_records)
  show ?thesis
    using sub flux
    by (simp add: before_diffusion_def before_partition_2_def z_phase_submarine_deposition
        plus_fval_def times_fval_def divide_fval_def non_finite_fadd non_finite_fmul
        non_finite_fdiv)
qed

lemma non_finite_elevation_reaches_bookkeeping:
  fixes c :: "(fval, 'c) components"
  assumes "n \<in> set (core_nodes (loop_body c p i w))"
    and "\<not> is_finite (z (loop_body c p i w) n)"
  shows "\<not> is_finite (thickness (loop_body c p i w) n)
       \<and> \<not> is_finite (cum_depo (loop_body c p i w) n)"
proof -
  have "n < number_of_nodes w \<and> \<not> perimeter_nodes w n"
    using assms(1) by (simp add: mem_core_nodes status_loop_body split: if_splits)
  then have core: "n \<in> set (core_nodes (before_bookkeeping c p w))"
    by (simp add: mem_core_nodes_before_bookkeeping)
  have broken: "\<not> is_finite (z (before_bookkeeping c p w) n)"
    using assms(2) by (simp add: z_before_bookkeeping)
  show ?thesis
    using core broken
    by (simp add: loop_body_phases ten_phases_before_bookkeeping phase_bookkeeping_effect
        plus_fval_def minus_fval_def non_finite_fadd non_finite_fsub)
qed

lemma non_finite_thickness_reaches_next_step:
  fixes c :: "(fval, 'c) components"
  assumes "\<not> is_finite (thickness (ke_run c (dt p) (main_loop c p k w)) n)"
  shows "\<not> is_finite (z0 (main_loop c p (Suc k) w) n)"
  using assms
  by (simp add: main_loop_Suc loop_body_records before_fluvial_erosion_def
      before_partition_1_def phase_extension_def z_phase_flexure plus_fval_def minus_fval_def
      non_finite_fadd non_finite_fsub)

section \<open>Plot and save\<close>




section \<open>The concrete inputs evaluated\<close>

lemma demo_params_fields:
  shows "sea_level_delta demo_params = 0"
    and "crust_datum demo_params = - 100"
    and "unit_wt demo_params = 2"
    and "dt demo_params = 1"
    and "plot_interval demo_params = 1"
    and "save_interval demo_params = 3"
  by (simp_all add: demo_params_def)

lemma demo_grid_fields:
  shows "gf_number_of_nodes demo_grid = 12"
    and "gf_area_of_cell demo_grid m = 2"
    and "gf_status_at_node demo_grid n =
           (if n = 5 \<or> n = 6 then BC_NODE_IS_CORE else BC_NODE_IS_FIXED_VALUE)"
    and "gf_elevation demo_grid n = (if n = 5 then 5 else if n = 6 then - 3 else - 10)"
  by (simp_all add: demo_grid_def)

lemma river_runs:
  shows "ke_run river_components s w = w"
    and "fl_run river_components w = w"
    and "fa_run river_components w = w\<lparr>wse := z w\<rparr>"
    and "ed_run river_components s w =
           w\<lparr>z := (\<lambda>n. if status_at_node w n = BC_NODE_IS_CORE then z w n - s else z w n),
             qs_in := (\<lambda>n. if n = 4 then 4 else 0)\<rparr>"
    and "sd_run river_components s w = w"
  by (simp_all add: river_components_def ke_run_def fl_run_def fa_run_def ed_run_def sd_run_def)

lemma river_phases:
  shows "phase_extension river_components p w = w"
    and "deflection (phase_flexure river_components p w) = deflection w"
    and "z (phase_fluvial_erosion river_components p w) n =
           (if status_at_node w n = BC_NODE_IS_CORE then z w n - dt p else z w n)"
    and "qs_in (phase_fluvial_erosion river_components p w) n = (if n = 4 then 4 else 0)"
    and "wse (phase_fluvial_erosion river_components p w) = z w"
    and "z (phase_submarine_diffusion river_components p w) = z w"
    and "wse (plot river_components p i w) =
           (if next_plot w \<le> float_of_nat i * dt p then z w else wse w)"
  by (simp_all add: phase_extension_def phase_flexure_def phase_fluvial_erosion_def
      phase_submarine_diffusion_def plot_def display_island_def river_runs
      set_elevation_def set_sd_sea_level_def)

lemma river_no_tectonics:
  shows "extension_rate_zero river_components"
    and "isostasy_disabled river_components"
  by (simp_all add: extension_rate_zero_def isostasy_disabled_def river_components_def)

lemma river_initial_world:
  shows "deflection (initial_world river_components p g c0) n = 0"
    and "init_deflection (initial_world river_components p g c0) n = 0"
    and "current_sea_level (initial_world river_components p g c0) = 0"
    and "rng (initial_world river_components p g c0) = 0"
    and "next_plot (initial_world river_components p g c0) = plot_interval p"
    and "next_save (initial_world river_components p g c0) = save_interval p"
  by (simp_all add: initial_world_def display_island_def prepare_flexure_def loaded_def component_zeros_def
      river_runs Let_def)

lemma river_start_fields:
  shows "number_of_nodes river_start = 12"
    and "area_of_cell river_start m = 2"
    and "status_at_node river_start n =
           (if n = 5 \<or> n = 6 then BC_NODE_IS_CORE else BC_NODE_IS_FIXED_VALUE)"
    and "perimeter_nodes river_start n \<longleftrightarrow> \<not> (n = 5 \<or> n = 6)"
    and "z river_start n = (if n = 5 then 5 else if n = 6 then - 3 else - 10)"
    and "thickness river_start n = (if n = 5 then 105 else if n = 6 then 97 else 90)"
    and "cum_subs river_start n = 0"
    and "deflection river_start n = 0"
    and "init_deflection river_start n = 0"
    and "cum_depo river_start n = 0"
    and "current_sea_level river_start = 0"
    and "next_plot river_start = 1"
    and "next_save river_start = 3"
    and "rng river_start = 0"
  by (simp_all add: river_start_def initial_world_def display_island_def prepare_flexure_def
      loaded_def component_zeros_def river_runs demo_grid_def demo_params_def Let_def)

lemma river_before_partition_1:
  shows "z (before_partition_1 river_components demo_params
              (initial_world river_components demo_params g ())) n = gf_elevation g n"
    and "current_sea_level (before_partition_1 river_components demo_params
              (initial_world river_components demo_params g ())) = 0"
  by (simp_all add: before_partition_1_def z_phase_flexure phase_sea_level_update_effect
      river_phases initial_world_fields river_initial_world demo_params_fields)

lemma river_step_1:
  shows "z (loop_body river_components demo_params (Suc 0) river_start) 4 = - 8"
    and "z (loop_body river_components demo_params (Suc 0) river_start) 5 = 4"
    and "z (loop_body river_components demo_params (Suc 0) river_start) 6 = - 3"
    and "thickness (loop_body river_components demo_params (Suc 0) river_start) 4 = 90"
    and "cum_subs (loop_body river_components demo_params (Suc 0) river_start) 4 = 0"
    and "deflection (loop_body river_components demo_params (Suc 0) river_start) 4 = 0"
    and "init_deflection (loop_body river_components demo_params (Suc 0) river_start) 4 = 0"
  by (simp_all add: loop_body_phases ten_phases_def river_phases river_start_fields
      demo_params_fields phase_bookkeeping_effect mem_core_nodes
      status_phase_land_sea_partition_2 phase_land_sea_partition_1_effect z_phase_flexure
      z_phase_submarine_deposition phase_sea_level_update_effect)

lemma river_step_1_core:
  "core_nodes (loop_body river_components demo_params (Suc 0) river_start) = [5, 6]"
  by (simp add: core_nodes_def status_loop_body river_start_fields upt_rec)

lemma river_run_1:
  "run river_components demo_params demo_grid () (Suc 0) =
     loop_body river_components demo_params (Suc 0) river_start"
  by (simp add: run_def river_start_def main_loop_def)

lemma high_before_partition_1:
  shows "current_sea_level (before_partition_1 river_components demo_params high_start) = 0"
    and "z (before_partition_1 river_components demo_params high_start) n =
           (if n = 5 then 9 else if n = 6 then 7 else 6)"
    and "number_of_nodes high_start = 12"
    and "perimeter_nodes high_start n \<longleftrightarrow> \<not> (n = 5 \<or> n = 6)"
  by (simp_all add: high_start_def river_before_partition_1 initial_world_fields high_grid_def)

lemma high_before_diffusion:
  shows "z (before_deposition river_components demo_params high_start) n =
           (if n = 5 then 8 else if n = 6 then 6 else 5)"
    and "z (before_diffusion river_components demo_params high_start) n =
           (if n = 5 then 8 else if n = 6 then 6 else 5)"
  by (simp_all add: before_diffusion_def before_partition_2_def before_deposition_def
      before_fluvial_erosion_def river_phases z_phase_submarine_deposition
      phase_land_sea_partition_1_effect high_before_partition_1 demo_params_fields)

lemma diffusers:
  shows "sd_run_one_step river_components s w = w"
    and "z (sd_run_one_step creeping_components s w) n =
           (if n = 5 then z w 5 - s * (z w 5 - z w 6) / 2 ^ 20
            else if n = 6 then z w 6 + s * (z w 5 - z w 6) / 2 ^ 20
            else z w n)"
  by (simp_all add: river_components_def creeping_components_def)

lemma high_step:
  "z (loop_body river_components demo_params i high_start) n =
     (if n = 5 then 8 else if n = 6 then 6 else 5)"
  by (simp add: z_handed_to_diffuser diffusers z_set_sd_sea_level high_before_diffusion)

lemma creeping_runs:
  shows "ke_run creeping_components = ke_run river_components"
    and "fl_run creeping_components = fl_run river_components"
    and "fa_run creeping_components = fa_run river_components"
    and "ed_run creeping_components = ed_run river_components"
    and "standard_normal creeping_components = standard_normal river_components"
  by (simp_all add: fun_eq_iff creeping_components_def ke_run_def fl_run_def fa_run_def
      ed_run_def)

lemma creeping_before_diffusion:
  shows "before_partition_1 creeping_components p w = before_partition_1 river_components p w"
    and "before_deposition creeping_components p w = before_deposition river_components p w"
    and "before_diffusion creeping_components p w = before_diffusion river_components p w"
  by (simp_all add: before_defs phase_extension_def phase_flexure_def
      phase_sea_level_update_def phase_fluvial_erosion_def adjust_sea_level_def creeping_runs)

lemma creeping_start_eq: "creeping_start = high_start"
  by (simp add: creeping_start_def high_start_def initial_world_def prepare_flexure_def
      display_island_def creeping_runs)

lemma creeping_values:
  shows "current_sea_level (before_partition_1 creeping_components demo_params creeping_start)
           = 0"
    and "z (before_partition_1 creeping_components demo_params creeping_start) n =
           (if n = 5 then 9 else if n = 6 then 7 else 6)"
    and "number_of_nodes creeping_start = 12"
    and "z (before_diffusion creeping_components demo_params creeping_start) n =
           (if n = 5 then 8 else if n = 6 then 6 else 5)"
  by (simp_all add: creeping_before_diffusion creeping_start_eq high_before_partition_1
      high_before_diffusion)

lemma creeping_step:
  "z (loop_body creeping_components demo_params i creeping_start) n =
     (if n = 5 then 8 - 2 / 2 ^ 20 else if n = 6 then 6 + 2 / 2 ^ 20 else 5)"
  by (simp add: z_handed_to_diffuser diffusers z_set_sd_sea_level creeping_values
      demo_params_fields)

lemmas fval_arith =
  zero_fval_def one_fval_def plus_fval_def minus_fval_def times_fval_def divide_fval_def
  less_fval_def less_eq_fval_def

lemma unstable_phases:
  shows "phase_extension unstable_components p w = w"
    and "deflection (phase_flexure unstable_components p w) = deflection w"
    and "z (phase_fluvial_erosion unstable_components p w) n = (if n = 5 then NaN else z w n)"
    and "qs_in (phase_fluvial_erosion unstable_components p w) n =
           (if n = 4 then PInf else Fin 0)"
    and "z (phase_submarine_diffusion unstable_components p w) = z w"
  by (simp_all add: phase_extension_def phase_flexure_def phase_fluvial_erosion_def
      phase_submarine_diffusion_def unstable_components_def ke_run_def fl_run_def fa_run_def
      ed_run_def sd_run_def set_elevation_def set_sd_sea_level_def)

lemma unstable_initial_world:
  "deflection (initial_world unstable_components p g c0) n = Fin 0"
  by (simp add: initial_world_def display_island_def prepare_flexure_def loaded_def component_zeros_def
      unstable_components_def fl_run_def fa_run_def Let_def zero_fval_def)

lemma z_ten_phases_unstable:
  "z (ten_phases unstable_components p w) 5 =
     (if submarine (before_deposition unstable_components p w) 5
      then fadd NaN (fmul (fdiv (qs_in (before_deposition unstable_components p w) 5)
                               (area_of_cell w 0)) (dt p))
      else NaN)"
  by (simp add: ten_phases_before_bookkeeping before_bookkeeping_def before_diffusion_def
      before_partition_2_def unstable_phases z_phase_submarine_deposition fval_arith)
     (simp add: before_deposition_def before_fluvial_erosion_def before_partition_1_def
      unstable_phases)

lemma z_loop_body_unstable:
  "z (loop_body unstable_components p i w) 5 = NaN"
  by (simp add: loop_body_phases z_ten_phases_unstable)

lemma unstable_step:
  shows "z (loop_body unstable_components p i w) 5 = NaN"
    and "qs_in (loop_body unstable_components p i w) n = (if n = 4 then PInf else Fin 0)"
  by (simp_all add: z_loop_body_unstable loop_body_records before_deposition_def unstable_phases)

lemma unstable_draw: "standard_normal unstable_components k = Fin 1"
  by (simp add: unstable_components_def)

lemma unstable_start_fields:
  shows "number_of_nodes unstable_start = 12"
    and "perimeter_nodes unstable_start n \<longleftrightarrow> \<not> (n = 5 \<or> n = 6)"
    and "z (before_partition_1 unstable_components double_params unstable_start) n =
           (if n = 5 then Fin 5 else if n = 6 then Fin (- 3) else Fin (- 10))"
    and "current_sea_level (before_partition_1 unstable_components double_params
           unstable_start) = Fin 0"
  by (simp_all add: before_partition_1_def z_phase_flexure phase_sea_level_update_effect
      unstable_phases unstable_start_def initial_world_fields double_grid_def
      double_params_def fval_arith overflow_small initial_world_baseline
      unstable_initial_world initial_world_sea_level unstable_draw)

lemma failed_flexure_deflection:
  "deflection (loop_body failed_flexure_components p i w) n = NaN"
  by (simp add: loop_body_records before_partition_1_def phase_flexure_def set_elevation_def
      fl_run_def failed_flexure_components_def)

section \<open>The claims\<close>

subsection \<open>C1: the elevation decomposition\<close>

text \<open>
  C1 as stated, for every node, fails. The bookkeeping adds the step's change of elevation
  to the crustal thickness of the core nodes only (\<open>thickness[grid.core_nodes] += ...\<close>),
  while the submarine deposition raises every submarine node, perimeter nodes included.
  In the river example the perimeter node 4 receives sediment and ends the first step at
  -8 m, where the decomposition gives -10 m.
\<close>

theorem elevation_decomposition_perimeter_counterexample:
  "z (loop_body river_components demo_params 1 river_start) 4 \<noteq>
     crust_datum demo_params + thickness (loop_body river_components demo_params 1 river_start) 4
       - (cum_subs (loop_body river_components demo_params 1 river_start) 4
          + (deflection (loop_body river_components demo_params 1 river_start) 4
             - init_deflection (loop_body river_components demo_params 1 river_start) 4))"
  by (simp add: river_step_1 demo_params_fields river_start_fields)

text \<open>
  C1, amended. After every completed iteration of the main loop, for every core node (the
  nodes below \<open>number_of_nodes\<close> that are not on the perimeter) the decomposition
  \<open>elevation = crust_datum + thickness - (cum_subs + (deflection - init_deflection))\<close>
  holds; in a run, \<open>init_deflection\<close> is the deflection that the set-up captured once before
  the loop started. (Exact arithmetic.)
\<close>

theorem elevation_decomposition_core_nodes:
  fixes c :: "(real, 'c) components"
  shows "(n \<in> set (core_nodes (loop_body c p i w)) \<longrightarrow>
           z (loop_body c p i w) n =
             crust_datum p + thickness (loop_body c p i w) n
               - (cum_subs (loop_body c p i w) n
                  + (deflection (loop_body c p i w) n
                     - init_deflection (loop_body c p i w) n)))
       \<and> (n \<in> set (core_nodes (run c p g c0 (Suc k))) \<longrightarrow>
           z (run c p g c0 (Suc k)) n =
             crust_datum p + thickness (run c p g c0 (Suc k)) n
               - (cum_subs (run c p g c0 (Suc k)) n
                  + (deflection (run c p g c0 (Suc k)) n
                     - deflection (initial_world c p g c0) n)))
       \<and> set (core_nodes (loop_body c p i w)) =
           {m. m < number_of_nodes w \<and> \<not> perimeter_nodes w m}"
proof -
  have baseline: "init_deflection (run c p g c0 (Suc k)) = deflection (initial_world c p g c0)"
    by (simp add: run_def initial_world_baseline)
  have "n \<in> set (core_nodes (run c p g c0 (Suc k))) \<longrightarrow>
           z (run c p g c0 (Suc k)) n =
             crust_datum p + thickness (run c p g c0 (Suc k)) n
               - (cum_subs (run c p g c0 (Suc k)) n
                  + (deflection (run c p g c0 (Suc k)) n
                     - init_deflection (run c p g c0 (Suc k)) n))"
    unfolding run_def main_loop_Suc by (simp add: decomposition_loop_body)
  then show ?thesis
    using baseline decomposition_loop_body [of n c p i w]
    by (auto simp add: mem_core_nodes_loop_body)
qed

theorem elevation_decomposition_core_nodes_witness:
  "5 \<in> set (core_nodes (loop_body river_components demo_params 1 river_start))
   \<and> z (loop_body river_components demo_params 1 river_start) 5 =
       crust_datum demo_params + thickness (loop_body river_components demo_params 1 river_start) 5
         - (cum_subs (loop_body river_components demo_params 1 river_start) 5
            + (deflection (loop_body river_components demo_params 1 river_start) 5
               - init_deflection (loop_body river_components demo_params 1 river_start) 5))"
proof -
  have core: "5 \<in> set (core_nodes (loop_body river_components demo_params 1 river_start))"
    by (simp add: mem_core_nodes_loop_body river_start_fields)
  with elevation_decomposition_core_nodes
         [of 5 river_components demo_params 1 river_start demo_grid "()" 0]
  show ?thesis by blast
qed

subsection \<open>C2: the order of the phases\<close>




subsection \<open>C3: the first land/sea partition\<close>

text \<open>
  C3 as stated fails for a node exactly at sea level: \<open>subaerial\<close> is \<open>z > current_sea_level\<close>,
  so such a node is not subaerial and becomes FIXED_VALUE although it is not below sea
  level. In the shore example node 5 has elevation 0 and the sea level is 0: the first
  iteration records the node as submarine, it is FIXED_VALUE during the fluvial phase, and
  the elevation that the partition compared (kept in \<open>z0\<close>) is not below the sea level.
\<close>

theorem first_partition_counterexample:
  "submarine (loop_body river_components demo_params 1 shore_start) 5
   \<and> status_at_node (before_fluvial_erosion river_components demo_params shore_start) 5 =
       BC_NODE_IS_FIXED_VALUE
   \<and> \<not> z0 (loop_body river_components demo_params 1 shore_start) 5
         < current_sea_level (loop_body river_components demo_params 1 shore_start)"
  by (simp add: loop_body_records before_fluvial_erosion_def phase_land_sea_partition_1_effect
      shore_start_def river_before_partition_1 shore_grid_def)

text \<open>
  C3, amended. In the first land/sea partition of every iteration of the loop, exactly the
  nodes whose elevation is not above the current sea level are classified FIXED_VALUE and
  all others (those strictly above it) CORE. For numbers, not above is at or below; a NaN
  elevation is above nothing and is FIXED_VALUE as well, which is why the rule is stated
  with the code's own test, for every number type. The fluvial phase starts in the state
  the partition leaves, and does not change the classification, so every node that is
  FIXED_VALUE during the fluvial phase is not above sea level at the start of that phase.
  The iteration keeps the record of it to its end: \<open>submarine\<close> is the FIXED_VALUE set,
  \<open>subaerial\<close> the CORE set, \<open>z0\<close> the elevation and \<open>current_sea_level\<close> the sea level
  that were compared. The last conjunct reads the rule for the reals.
\<close>

theorem first_partition_not_above_sea_level:
  fixes c :: "('a::{zero,one,plus,minus,times,inverse,ord}, 'c) components"
    and cr :: "(real, 'd) components"
  shows "loop_body c p i w =
           save p i (plot c p i (phase_bookkeeping (phase_submarine_diffusion c p
             (phase_land_sea_partition_2 (phase_submarine_deposition p
               (phase_fluvial_erosion c p (before_fluvial_erosion c p w)))))))
       \<and> (status_at_node (before_fluvial_erosion c p w) n = BC_NODE_IS_FIXED_VALUE \<longleftrightarrow>
            \<not> current_sea_level (before_fluvial_erosion c p w)
                < z (before_fluvial_erosion c p w) n)
       \<and> (status_at_node (before_fluvial_erosion c p w) n = BC_NODE_IS_CORE \<longleftrightarrow>
            current_sea_level (before_fluvial_erosion c p w)
              < z (before_fluvial_erosion c p w) n)
       \<and> status_at_node (before_deposition c p w) = status_at_node (before_fluvial_erosion c p w)
       \<and> (submarine (loop_body c p i w) n \<longleftrightarrow>
            status_at_node (before_fluvial_erosion c p w) n = BC_NODE_IS_FIXED_VALUE)
       \<and> (subaerial (loop_body c p i w) n \<longleftrightarrow>
            status_at_node (before_fluvial_erosion c p w) n = BC_NODE_IS_CORE)
       \<and> z0 (loop_body c p i w) = z (before_fluvial_erosion c p w)
       \<and> current_sea_level (loop_body c p i w) =
            current_sea_level (before_fluvial_erosion c p w)
       \<and> (submarine (loop_body c p i w) n \<longleftrightarrow>
            \<not> current_sea_level (loop_body c p i w) < z0 (loop_body c p i w) n)
       \<and> (submarine (loop_body cr pr i wr) n \<longleftrightarrow>
            z0 (loop_body cr pr i wr) n \<le> current_sea_level (loop_body cr pr i wr))"
proof -
  have real_rule: "submarine (loop_body cr pr i wr) n \<longleftrightarrow>
            z0 (loop_body cr pr i wr) n \<le> current_sea_level (loop_body cr pr i wr)"
    by (simp add: loop_body_records first_partition_rule not_less)
  have rules:
    "(status_at_node (before_fluvial_erosion c p w) n = BC_NODE_IS_FIXED_VALUE \<longleftrightarrow>
            \<not> current_sea_level (before_fluvial_erosion c p w)
                < z (before_fluvial_erosion c p w) n)
       \<and> (status_at_node (before_fluvial_erosion c p w) n = BC_NODE_IS_CORE \<longleftrightarrow>
            current_sea_level (before_fluvial_erosion c p w)
              < z (before_fluvial_erosion c p w) n)
       \<and> status_at_node (before_deposition c p w) = status_at_node (before_fluvial_erosion c p w)"
    by (simp add: first_partition_rule before_deposition_records)
  have records: "(submarine (loop_body c p i w) n \<longleftrightarrow>
            status_at_node (before_fluvial_erosion c p w) n = BC_NODE_IS_FIXED_VALUE)
       \<and> (subaerial (loop_body c p i w) n \<longleftrightarrow>
            status_at_node (before_fluvial_erosion c p w) n = BC_NODE_IS_CORE)
       \<and> z0 (loop_body c p i w) = z (before_fluvial_erosion c p w)
       \<and> current_sea_level (loop_body c p i w) =
            current_sea_level (before_fluvial_erosion c p w)
       \<and> (submarine (loop_body c p i w) n \<longleftrightarrow>
            \<not> current_sea_level (loop_body c p i w) < z0 (loop_body c p i w) n)"
    by (simp add: loop_body_records first_partition_rule)
  show ?thesis
    using real_rule rules records loop_body_from_fluvial_erosion [of c p i w]
    by blast
qed

subsection \<open>C4: submarine deposition\<close>

text \<open>
  C4. Every iteration of the loop runs the submarine deposition between the fluvial phase
  and the second partition. The deposition rate of a node is its own sediment influx
  \<open>qs_in\<close> divided by the representative cell area, which is the area of cell 0 for every
  node (the cells of the hex grid are congruent); \<open>rate * dt\<close> is added to the elevation of
  exactly the submarine nodes, which are the nodes that are FIXED_VALUE since the fluvial
  phase, and the elevation of every other node is unchanged by the phase. The influx and
  the mask are the ones the iteration still holds at its end, and the elevation at the end
  of the iteration is what the diffuser returns for the state with these deposits.
\<close>

theorem submarine_deposition_in_loop_body:
  "loop_body c p i w =
     save p i (plot c p i (phase_bookkeeping (phase_submarine_diffusion c p
       (phase_land_sea_partition_2 (phase_submarine_deposition p
         (before_deposition c p w))))))
   \<and> z (phase_submarine_deposition p (before_deposition c p w)) n =
       (if submarine (loop_body c p i w) n
        then z (before_deposition c p w) n
             + qs_in (loop_body c p i w) n / area_of_cell w 0 * dt p
        else z (before_deposition c p w) n)
   \<and> (submarine (loop_body c p i w) n \<longleftrightarrow>
        status_at_node (before_deposition c p w) n = BC_NODE_IS_FIXED_VALUE)
   \<and> z (loop_body c p i w) =
       z (sd_run_one_step c (dt p) (set_sd_sea_level (phase_land_sea_partition_2
           (phase_submarine_deposition p (before_deposition c p w)))))"
proof -
  have handed: "z (loop_body c p i w) =
       z (sd_run_one_step c (dt p) (set_sd_sea_level (phase_land_sea_partition_2
           (phase_submarine_deposition p (before_deposition c p w)))))"
    by (simp add: loop_body_from_deposition phase_submarine_diffusion_def sd_run_def Let_def)
  show ?thesis
    using handed loop_body_from_deposition [of c p i w]
    by (simp add: loop_body_records before_deposition_records first_partition_rule
        z_phase_submarine_deposition)
qed

text \<open>
  In the first iteration of the river example the river mouth, node 4, is under water and
  receives 4 / 2 * 1 = 2 m: it ends the iteration at -8 m. The land node 5 receives
  nothing and ends it where the fluvial phase left it.
\<close>

theorem submarine_deposition_in_loop_body_witness:
  "submarine (loop_body river_components demo_params 1 river_start) 4
   \<and> \<not> submarine (loop_body river_components demo_params 1 river_start) 5
   \<and> z (before_deposition river_components demo_params river_start) 4 = - 10
   \<and> z (before_deposition river_components demo_params river_start) 5 = 4
   \<and> qs_in (loop_body river_components demo_params 1 river_start) 4 = 4
   \<and> area_of_cell river_start 0 = 2
   \<and> z (loop_body river_components demo_params 1 river_start) 4 = - 8
   \<and> z (loop_body river_components demo_params 1 river_start) 5 = 4"
proof -
  have sub: "submarine (loop_body river_components demo_params i river_start) n \<longleftrightarrow>
               n \<noteq> 5" for i n
    by (simp add: loop_body_records before_fluvial_erosion_def
        phase_land_sea_partition_1_effect river_start_def river_before_partition_1
        demo_grid_fields)
  have after_erosion: "z (before_deposition river_components demo_params river_start) n =
      (if n = 5 then 4 else if n = 6 then - 3 else - 10)" for n
    by (simp add: before_deposition_def before_fluvial_erosion_def river_phases
        phase_land_sea_partition_1_effect river_start_def river_before_partition_1
        demo_grid_fields demo_params_fields)
  have flux: "qs_in (loop_body river_components demo_params i river_start) 4 = 4" for i
    by (simp add: loop_body_records before_deposition_def river_phases)
  have second: "z (phase_land_sea_partition_2 v) = z v" for v :: "(real, unit) world"
    by simp
  have deposited:
    "z (phase_submarine_deposition demo_params
          (before_deposition river_components demo_params river_start)) n =
       (if submarine (loop_body river_components demo_params i river_start) n
        then z (before_deposition river_components demo_params river_start) n
             + qs_in (loop_body river_components demo_params i river_start) n
               / area_of_cell river_start 0 * dt demo_params
        else z (before_deposition river_components demo_params river_start) n)"
    and handed:
    "z (loop_body river_components demo_params i river_start) =
       z (sd_run_one_step river_components (dt demo_params)
           (set_sd_sea_level (phase_land_sea_partition_2
             (phase_submarine_deposition demo_params
               (before_deposition river_components demo_params river_start)))))" for n i
    using submarine_deposition_in_loop_body [of river_components demo_params i river_start n]
    by blast+
  have four: "z (loop_body river_components demo_params 1 river_start) 4 = - 8"
    using sub [of 1 4] after_erosion [of 4] flux [of 1] deposited [of 4 1]
    by (simp add: handed diffusers z_set_sd_sea_level second river_start_fields
        demo_params_fields)
  have five: "z (loop_body river_components demo_params 1 river_start) 5 = 4"
    using sub [of 1 5] after_erosion [of 5] deposited [of 5 1]
    by (simp add: handed diffusers z_set_sd_sea_level second river_start_fields
        demo_params_fields)
  show ?thesis
    using four five sub [of 1 4] sub [of 1 5] after_erosion [of 4] after_erosion [of 5]
      flux [of 1]
    by (simp add: river_start_fields)
qed

subsection \<open>C5: non-finite values\<close>

text \<open>
  C5 as stated fails: the loop has no check for non-finite values and no failure path.
  In the unstable example the fluvial phase of the first step turns the elevation of
  node 5 from 5 m into NaN; the step completes with it, and the run goes on through the
  second step, still with NaN at node 5.
\<close>

theorem non_finite_value_counterexample:
  "z (before_fluvial_erosion unstable_components double_params unstable_start) 5 = Fin 5
   \<and> \<not> is_finite (z (before_deposition unstable_components double_params unstable_start) 5)
   \<and> \<not> is_finite (z (loop_body unstable_components double_params 1 unstable_start) 5)
   \<and> length (sea_level (main_loop unstable_components double_params 2 unstable_start)) = 2
   \<and> \<not> is_finite (z (main_loop unstable_components double_params 2 unstable_start) 5)"
proof -
  have start: "z (before_fluvial_erosion unstable_components double_params unstable_start) 5
                 = Fin 5"
    by (simp add: before_fluvial_erosion_def unstable_start_fields)
  have broken:
    "\<not> is_finite (z (before_deposition unstable_components double_params unstable_start) 5)"
    by (simp add: before_deposition_def unstable_phases)
  have history:
    "length (sea_level (main_loop unstable_components double_params 2 unstable_start)) = 2"
    by (simp add: main_loop_sea_level_length unstable_start_def initial_world_sea_level)
  have second: "z (main_loop unstable_components double_params 2 unstable_start) 5 = NaN"
    by (simp add: numeral_2_eq_2 main_loop_Suc z_loop_body_unstable)
  show ?thesis
    using start broken history second by (simp add: z_loop_body_unstable)
qed

text \<open>
  C5, amended. The statements of the loop test no value for being finite and have no
  failure path: when the calls of the components return, a step in which a phase has
  produced a non-finite elevation, deflection or flux is completed, nothing is reported,
  and the run goes on (a run of \<open>k\<close> iterations appends \<open>k\<close> sea levels). The loop's own
  arithmetic passes the value on where it reads it:
  \<^item> a non-finite deflection left by the flexure phase gives a non-finite elevation of that
    node at the first partition of the step (the elevation kept in \<open>z0\<close>);
  \<^item> a non-finite flux at a submarine node gives a non-finite elevation of that node after
    the deposition, which is the elevation handed to the diffuser, and the elevation at the
    end of the step is what the diffuser returns;
  \<^item> a non-finite elevation of a core node at the end of a step comes with a non-finite
    crustal thickness and a non-finite cumulative deposit of that node;
  \<^item> a non-finite crustal thickness after the extension of the next step gives a non-finite
    elevation of that node at the first partition of that step.

  Nothing is said of the elevation of a perimeter node, which the next step computes anew
  from the thickness, nor of the flux at a land node, which the loop does not read.
\<close>

theorem non_finite_values_are_carried_on:
  fixes c :: "(fval, 'c) components"
  shows "(\<not> is_finite (deflection (loop_body c p i w) n) \<longrightarrow>
            \<not> is_finite (z0 (loop_body c p i w) n))
       \<and> (submarine (loop_body c p i w) n \<and> \<not> is_finite (qs_in (loop_body c p i w) n) \<longrightarrow>
            \<not> is_finite (z (before_diffusion c p w) n))
       \<and> z (loop_body c p i w) =
            z (sd_run_one_step c (dt p) (set_sd_sea_level (before_diffusion c p w)))
       \<and> (n \<in> set (core_nodes (loop_body c p i w)) \<and> \<not> is_finite (z (loop_body c p i w) n) \<longrightarrow>
            \<not> is_finite (thickness (loop_body c p i w) n)
          \<and> \<not> is_finite (cum_depo (loop_body c p i w) n))
       \<and> (\<not> is_finite (thickness (ke_run c (dt p) (main_loop c p k w)) n) \<longrightarrow>
            \<not> is_finite (z0 (main_loop c p (Suc k) w) n))
       \<and> length (sea_level (main_loop c p k w)) = length (sea_level w) + k"
  using non_finite_deflection_reaches_elevation [of c p i w n]
    non_finite_flux_reaches_elevation [of c p i w n]
    non_finite_elevation_reaches_bookkeeping [of n c p i w]
    non_finite_thickness_reaches_next_step [of c p k w n]
    z_handed_to_diffuser [of c p i w] main_loop_sea_level_length [of c p k w]
  by blast

text \<open>
  In the unstable example the infinite flux at the river mouth reaches its elevation, and
  the NaN elevation of node 5 reaches its thickness, its cumulative deposit and the
  second step; with the failed flexure solver the NaN deflection reaches the elevation.
\<close>

theorem non_finite_values_are_carried_on_witness:
  "\<not> is_finite (deflection (loop_body failed_flexure_components double_params 1 unstable_start) 5)
   \<and> \<not> is_finite (z0 (loop_body failed_flexure_components double_params 1 unstable_start) 5)
   \<and> submarine (loop_body unstable_components double_params 1 unstable_start) 4
   \<and> \<not> is_finite (qs_in (loop_body unstable_components double_params 1 unstable_start) 4)
   \<and> \<not> is_finite (z (before_diffusion unstable_components double_params unstable_start) 4)
   \<and> 5 \<in> set (core_nodes (loop_body unstable_components double_params 1 unstable_start))
   \<and> \<not> is_finite (z (loop_body unstable_components double_params 1 unstable_start) 5)
   \<and> \<not> is_finite (thickness (loop_body unstable_components double_params 1 unstable_start) 5)
   \<and> \<not> is_finite (cum_depo (loop_body unstable_components double_params 1 unstable_start) 5)
   \<and> \<not> is_finite (thickness (ke_run unstable_components (dt double_params)
          (main_loop unstable_components double_params 1 unstable_start)) 5)
   \<and> \<not> is_finite (z0 (main_loop unstable_components double_params 2 unstable_start) 5)"
proof -
  have flexure: "\<not> is_finite
      (deflection (loop_body failed_flexure_components double_params 1 unstable_start) 5)"
    by (simp add: failed_flexure_deflection)
  with non_finite_values_are_carried_on
         [of failed_flexure_components double_params 1 unstable_start 5 0]
  have elevation: "\<not> is_finite
      (z0 (loop_body failed_flexure_components double_params 1 unstable_start) 5)"
    by blast
  have sea: "submarine (loop_body unstable_components double_params 1 unstable_start) 4"
    by (simp add: loop_body_records before_fluvial_erosion_def
        phase_land_sea_partition_1_effect unstable_start_fields fval_arith)
  have flux: "\<not> is_finite
      (qs_in (loop_body unstable_components double_params 1 unstable_start) 4)"
    by (simp add: unstable_step)
  have core: "5 \<in> set (core_nodes (loop_body unstable_components double_params 1 unstable_start))"
    by (simp add: mem_core_nodes status_loop_body unstable_start_fields)
  have broken: "\<not> is_finite (z (loop_body unstable_components double_params 1 unstable_start) 5)"
    by (simp add: unstable_step)
  from non_finite_values_are_carried_on
         [of unstable_components double_params 1 unstable_start 4 1] sea flux
  have deposited: "\<not> is_finite
      (z (before_diffusion unstable_components double_params unstable_start) 4)"
    by blast
  note claim = non_finite_values_are_carried_on
         [of unstable_components double_params 1 unstable_start 5 1]
  from claim core broken
  have kept: "\<not> is_finite
        (thickness (loop_body unstable_components double_params 1 unstable_start) 5)
      \<and> \<not> is_finite (cum_depo (loop_body unstable_components double_params 1 unstable_start) 5)"
    by blast
  have one: "main_loop unstable_components double_params 1 unstable_start =
               loop_body unstable_components double_params 1 unstable_start"
    by (simp add: main_loop_def)
  have idle: "ke_run unstable_components s v = v" for s v
    by (simp add: ke_run_def unstable_components_def)
  have extended: "\<not> is_finite (thickness (ke_run unstable_components (dt double_params)
          (main_loop unstable_components double_params 1 unstable_start)) 5)"
    using kept unfolding one idle by blast
  with claim
  have next_step: "\<not> is_finite
      (z0 (main_loop unstable_components double_params 2 unstable_start) 5)"
    by (simp add: numeral_2_eq_2)
  show ?thesis
    using flexure elevation sea flux deposited core broken kept extended next_step by blast
qed

subsection \<open>C6: a step above sea level\<close>

text \<open>
  C6 as stated fails twice. The second partition sets the perimeter nodes to FIXED_VALUE
  on every step, also when no node is under water: in the high example every node is
  above sea level at the first partition and at the end of the first step, and the
  perimeter node 4 is CORE during the fluvial phase and FIXED_VALUE at the end of the step.
  And the diffusion phase calls the diffuser on the whole grid: with the creeping diffuser,
  which moves sediment on land with a coefficient of \<open>2^-20\<close>, every node is above sea level
  at the first partition and at the end of the first step as well, and the phase lowers
  node 5 from 8 m to \<open>8 - 2^-19\<close> m.
\<close>

theorem step_above_sea_level_counterexample:
  "list_all (\<lambda>n. current_sea_level (before_partition_1 river_components demo_params high_start)
                    < z (before_partition_1 river_components demo_params high_start) n)
     [0..<number_of_nodes high_start]
   \<and> list_all (\<lambda>n. current_sea_level (loop_body river_components demo_params 1 high_start)
                    < z (loop_body river_components demo_params 1 high_start) n)
       [0..<number_of_nodes high_start]
   \<and> 4 < number_of_nodes high_start
   \<and> status_at_node (before_fluvial_erosion river_components demo_params high_start) 4 =
       BC_NODE_IS_CORE
   \<and> status_at_node (loop_body river_components demo_params 1 high_start) 4 =
       BC_NODE_IS_FIXED_VALUE
   \<and> list_all (\<lambda>n. current_sea_level (before_partition_1 creeping_components demo_params
                                          creeping_start)
                    < z (before_partition_1 creeping_components demo_params creeping_start) n)
       [0..<number_of_nodes creeping_start]
   \<and> list_all (\<lambda>n. current_sea_level (loop_body creeping_components demo_params 1 creeping_start)
                    < z (loop_body creeping_components demo_params 1 creeping_start) n)
       [0..<number_of_nodes creeping_start]
   \<and> z (before_diffusion creeping_components demo_params creeping_start) 5 = 8
   \<and> z (loop_body creeping_components demo_params 1 creeping_start) 5 = 8 - 2 / 2 ^ 20
   \<and> z (loop_body creeping_components demo_params 1 creeping_start) 5
       \<noteq> z (before_diffusion creeping_components demo_params creeping_start) 5"
proof -
  have end_sea: "current_sea_level (loop_body c demo_params i w) =
                   current_sea_level (before_partition_1 c demo_params w)"
    for i c and w :: "(real, unit) world"
    by (simp add: loop_body_records before_fluvial_erosion_def)
  have river:
    "list_all (\<lambda>n. current_sea_level (before_partition_1 river_components demo_params high_start)
                    < z (before_partition_1 river_components demo_params high_start) n)
       [0..<number_of_nodes high_start]
     \<and> list_all (\<lambda>n. current_sea_level (loop_body river_components demo_params 1 high_start)
                    < z (loop_body river_components demo_params 1 high_start) n)
         [0..<number_of_nodes high_start]
     \<and> 4 < number_of_nodes high_start
     \<and> status_at_node (before_fluvial_erosion river_components demo_params high_start) 4 =
         BC_NODE_IS_CORE
     \<and> status_at_node (loop_body river_components demo_params 1 high_start) 4 =
         BC_NODE_IS_FIXED_VALUE"
    by (simp add: list_all_iff high_step end_sea status_loop_body high_before_partition_1
        before_fluvial_erosion_def phase_land_sea_partition_1_effect)
  have creeping:
    "list_all (\<lambda>n. current_sea_level (before_partition_1 creeping_components demo_params
                                          creeping_start)
                    < z (before_partition_1 creeping_components demo_params creeping_start) n)
       [0..<number_of_nodes creeping_start]
     \<and> list_all (\<lambda>n. current_sea_level (loop_body creeping_components demo_params 1
                                            creeping_start)
                    < z (loop_body creeping_components demo_params 1 creeping_start) n)
         [0..<number_of_nodes creeping_start]
     \<and> z (before_diffusion creeping_components demo_params creeping_start) 5 = 8
     \<and> z (loop_body creeping_components demo_params 1 creeping_start) 5 = 8 - 2 / 2 ^ 20"
    by (simp add: list_all_iff end_sea creeping_step creeping_values)
  show ?thesis
    using river creeping by simp
qed

text \<open>
  C6, amended. For any iteration of the loop in which the current sea level is below the
  elevation of every node when the first partition is taken: every node is recorded as
  subaerial and none as submarine, every node is CORE during the fluvial phase, and the
  submarine deposition phase leaves the elevation of every node unchanged (it changes no
  other field on any step). The second partition still sets the perimeter nodes, and only
  them, to FIXED_VALUE, as it does on every step, so that at the end of the iteration a
  node is CORE exactly when it is not on the perimeter. If moreover the sea level is still
  below every node after the fluvial phase and the diffuser is idle above sea level, the
  submarine diffusion phase leaves the elevation of every node unchanged as well: the
  elevation at the end of the iteration is the one the fluvial phase left. (On every step
  the diffusion phase changes no field but the elevation, the diffuser's sea level and
  what the diffuser keeps for itself.)
\<close>

theorem step_above_sea_level:
  "loop_body c p i w =
     save p i (plot c p i (phase_bookkeeping (phase_submarine_diffusion c p
       (phase_land_sea_partition_2 (phase_submarine_deposition p
         (before_deposition c p w))))))
   \<and> status_at_node (loop_body c p i w) n =
       (if perimeter_nodes w n then BC_NODE_IS_FIXED_VALUE else BC_NODE_IS_CORE)
   \<and> phase_submarine_deposition p (before_deposition c p w) =
       (before_deposition c p w)
         \<lparr>z := z (phase_submarine_deposition p (before_deposition c p w))\<rparr>
   \<and> phase_submarine_diffusion c p (before_diffusion c p w) =
       (before_diffusion c p w)
         \<lparr>z := z (phase_submarine_diffusion c p (before_diffusion c p w)),
          sd_sea_level := current_sea_level (before_diffusion c p w),
          internals := internals (phase_submarine_diffusion c p (before_diffusion c p w))\<rparr>
   \<and> ((\<forall>m<number_of_nodes w.
          current_sea_level (before_partition_1 c p w) < z (before_partition_1 c p w) m) \<longrightarrow>
       (\<forall>m<number_of_nodes w.
            subaerial (loop_body c p i w) m
          \<and> \<not> submarine (loop_body c p i w) m
          \<and> status_at_node (before_fluvial_erosion c p w) m = BC_NODE_IS_CORE
          \<and> status_at_node (before_deposition c p w) m = BC_NODE_IS_CORE
          \<and> z (phase_submarine_deposition p (before_deposition c p w)) m =
              z (before_deposition c p w) m
          \<and> z (before_diffusion c p w) m = z (before_deposition c p w) m))
   \<and> ((\<forall>m<number_of_nodes w.
          current_sea_level (before_partition_1 c p w) < z (before_partition_1 c p w) m)
       \<and> (\<forall>m<number_of_nodes w.
          current_sea_level (before_partition_1 c p w) < z (before_deposition c p w) m)
       \<and> diffuser_idle_above_sea_level c \<longrightarrow>
       (\<forall>m<number_of_nodes w. z (loop_body c p i w) m = z (before_deposition c p w) m))"
proof -
  have land: "(\<forall>m<number_of_nodes w.
            subaerial (loop_body c p i w) m
          \<and> \<not> submarine (loop_body c p i w) m
          \<and> status_at_node (before_fluvial_erosion c p w) m = BC_NODE_IS_CORE
          \<and> status_at_node (before_deposition c p w) m = BC_NODE_IS_CORE
          \<and> z (phase_submarine_deposition p (before_deposition c p w)) m =
              z (before_deposition c p w) m
          \<and> z (before_diffusion c p w) m = z (before_deposition c p w) m)"
    if "\<forall>m<number_of_nodes w.
          current_sea_level (before_partition_1 c p w) < z (before_partition_1 c p w) m"
    using land_only_partition [OF that] by blast
  have quiet: "\<forall>m<number_of_nodes w. z (loop_body c p i w) m = z (before_deposition c p w) m"
    if "\<forall>m<number_of_nodes w.
          current_sea_level (before_partition_1 c p w) < z (before_partition_1 c p w) m"
      and "\<forall>m<number_of_nodes w.
          current_sea_level (before_partition_1 c p w) < z (before_deposition c p w) m"
      and "diffuser_idle_above_sea_level c"
    using land_only_diffusion [OF that] by blast
  show ?thesis
    using land quiet loop_body_from_deposition [of c p i w] status_loop_body [of c p i w n]
      deposition_only_elevation [of p "before_deposition c p w"]
      diffusion_only_elevation [of c p "before_diffusion c p w"]
    by blast
qed

text \<open>
  In the high example the diffuser moves nothing and the sea level stays below every node:
  node 5 is CORE during the fluvial phase, which lowers it to 8 m, and it ends the
  iteration at 8 m.
\<close>

theorem step_above_sea_level_witness:
  "list_all (\<lambda>n. current_sea_level (before_partition_1 river_components demo_params high_start)
                    < z (before_partition_1 river_components demo_params high_start) n)
     [0..<number_of_nodes high_start]
   \<and> list_all (\<lambda>n. current_sea_level (before_partition_1 river_components demo_params high_start)
                    < z (before_deposition river_components demo_params high_start) n)
     [0..<number_of_nodes high_start]
   \<and> diffuser_idle_above_sea_level river_components
   \<and> 5 < number_of_nodes high_start
   \<and> status_at_node (before_fluvial_erosion river_components demo_params high_start) 5 =
       BC_NODE_IS_CORE
   \<and> \<not> submarine (loop_body river_components demo_params 1 high_start) 5
   \<and> z (before_deposition river_components demo_params high_start) 5 = 8
   \<and> z (before_diffusion river_components demo_params high_start) 5 = 8
   \<and> z (loop_body river_components demo_params 1 high_start) 5 = 8"
proof -
  have above: "\<forall>n<number_of_nodes high_start.
      current_sea_level (before_partition_1 river_components demo_params high_start)
        < z (before_partition_1 river_components demo_params high_start) n"
    by (simp add: high_before_partition_1)
  have still: "\<forall>n<number_of_nodes high_start.
      current_sea_level (before_partition_1 river_components demo_params high_start)
        < z (before_deposition river_components demo_params high_start) n"
    by (simp add: high_before_partition_1 high_before_diffusion)
  have idle: "diffuser_idle_above_sea_level river_components"
    by (simp add: diffuser_idle_above_sea_level_def river_components_def)
  have node: "(5::nat) < number_of_nodes high_start"
    by (simp add: high_before_partition_1)
  note claim = step_above_sea_level [of river_components demo_params 1 high_start 5]
  from claim above node
  have land: "status_at_node (before_fluvial_erosion river_components demo_params high_start) 5 =
          BC_NODE_IS_CORE
      \<and> \<not> submarine (loop_body river_components demo_params 1 high_start) 5
      \<and> z (before_diffusion river_components demo_params high_start) 5 =
          z (before_deposition river_components demo_params high_start) 5"
    by blast
  from claim above still idle node
  have quiet: "z (loop_body river_components demo_params 1 high_start) 5 =
          z (before_deposition river_components demo_params high_start) 5"
    by blast
  show ?thesis
    using above still idle node land quiet
    by (simp add: list_all_iff high_before_diffusion)
qed

subsection \<open>C7: cumulative deposit in a run without tectonics\<close>

text \<open>
  C7. In a run with extension rate 0 (the extender changes none of its fields) and
  isostasy disabled (the flexure component leaves the deflection as it is), after any
  number of completed iterations the sum of the cumulative deposit thickness over the core
  nodes equals the sum over the core nodes of the change of elevation since the start of
  the run. (It holds node by node; exact arithmetic.)
\<close>

theorem cumulative_deposit_equals_elevation_change:
  fixes c :: "(real, 'c) components"
  assumes "extension_rate_zero c" and "isostasy_disabled c"
  shows "sum_list (map (cum_depo (run c p g c0 k)) (core_nodes (run c p g c0 k))) =
         sum_list (map (\<lambda>n. z (run c p g c0 k) n - z (initial_world c p g c0) n)
                       (core_nodes (run c p g c0 k)))"
proof -
  have "map (cum_depo (run c p g c0 k)) (core_nodes (run c p g c0 k)) =
        map (\<lambda>n. z (run c p g c0 k) n - z (initial_world c p g c0) n)
            (core_nodes (run c p g c0 k))"
    by (rule map_cong) (simp_all add: cum_depo_run [OF assms])
  then show ?thesis by (rule arg_cong)
qed

theorem cumulative_deposit_equals_elevation_change_witness:
  "extension_rate_zero river_components \<and> isostasy_disabled river_components
   \<and> core_nodes (run river_components demo_params demo_grid () 1) = [5, 6]
   \<and> sum_list (map (cum_depo (run river_components demo_params demo_grid () 1))
                  (core_nodes (run river_components demo_params demo_grid () 1))) = - 1"
proof -
  note no_tectonics = river_no_tectonics
  from cumulative_deposit_equals_elevation_change [OF no_tectonics, of demo_params demo_grid "()" 1]
  have "sum_list (map (cum_depo (run river_components demo_params demo_grid () 1))
                  (core_nodes (run river_components demo_params demo_grid () 1))) =
        sum_list (map (\<lambda>n. z (run river_components demo_params demo_grid () 1) n
                            - z (initial_world river_components demo_params demo_grid ()) n)
                  (core_nodes (run river_components demo_params demo_grid () 1)))" .
  also have "\<dots> = - 1"
    by (simp add: river_run_1 river_step_1_core river_step_1 river_start_fields
        river_start_def [symmetric])
  finally show ?thesis
    using no_tectonics by (simp add: river_run_1 river_step_1_core)
qed

subsection \<open>C9: the sea-level forcing\<close>



subsection \<open>C10: the load outside the core nodes\<close>

text \<open>
  C10. In every iteration the load is rewritten only at the ids of the core nodes of the
  primary grid, and the core nodes of a run are at every iteration the nodes that the
  loaded grid marks CORE (the nodes off the perimeter). At every other id the load keeps,
  for the whole run, the value \<open>unit_wt * thickness\<close> that the set-up assigned from the
  initial crustal thickness \<open>z - crust_datum\<close>: what erosion or deposition does at a
  perimeter node never reaches the load.
\<close>

theorem load_rewritten_at_core_nodes_only:
  "load (loop_body c p i w) n =
     (if n \<in> set (core_nodes w)
      then unit_wt p * (thickness (ke_run c (dt p) w) n - cum_subs (ke_run c (dt p) w) n)
      else load w n)
   \<and> (n \<in> set (core_nodes (run c p g c0 k)) \<longleftrightarrow>
        n < gf_number_of_nodes g \<and> gf_status_at_node g n = BC_NODE_IS_CORE)
   \<and> (\<not> (n < gf_number_of_nodes g \<and> gf_status_at_node g n = BC_NODE_IS_CORE) \<longrightarrow>
        load (run c p g c0 k) n = unit_wt p * thickness (initial_world c p g c0) n
      \<and> thickness (initial_world c p g c0) n = gf_elevation g n - crust_datum p)"
proof -
  have start: "perimeter_is_not_core (initial_world c p g c0)"
    by (rule perimeter_is_not_core_initial_world)
  have core: "n \<in> set (core_nodes (run c p g c0 k)) \<longleftrightarrow>
        n < gf_number_of_nodes g \<and> gf_status_at_node g n = BC_NODE_IS_CORE"
    unfolding run_def by (simp add: mem_core_nodes_main_loop [OF start] initial_world_fields)
  have kept: "load (run c p g c0 k) n = unit_wt p * thickness (initial_world c p g c0) n"
    if "\<not> (n < gf_number_of_nodes g \<and> gf_status_at_node g n = BC_NODE_IS_CORE)"
    unfolding run_def using that
    by (simp add: load_main_loop_perimeter [OF start] initial_world_fields)
  show ?thesis
    using core kept by (simp add: load_loop_body initial_world_fields)
qed

theorem load_rewritten_at_core_nodes_only_witness:
  "\<not> (4 < gf_number_of_nodes demo_grid \<and> gf_status_at_node demo_grid 4 = BC_NODE_IS_CORE)
   \<and> load (run river_components demo_params demo_grid () 2) 4 = 180"
proof -
  have perimeter:
    "\<not> (4 < gf_number_of_nodes demo_grid \<and> gf_status_at_node demo_grid 4 = BC_NODE_IS_CORE)"
    by (simp add: demo_grid_fields)
  from load_rewritten_at_core_nodes_only
         [of river_components demo_params 1 river_start 4 demo_grid "()" 2]
  have "load (run river_components demo_params demo_grid () 2) 4 =
          unit_wt demo_params * thickness (initial_world river_components demo_params demo_grid ()) 4"
    using perimeter by blast
  then show ?thesis
    using perimeter by (simp add: initial_world_fields demo_grid_fields demo_params_fields)
qed

end
